theory Spec2Isabelle
  imports Complex_Main "HOL-Library.Char_ord" "HOL-Library.List_Lexorder" "HOL-Library.Log_Nat"
    "HOL-Library.AList" "HOL-Library.Sublist"
begin

section \<open>Python values, errors and dictionaries\<close>

text \<open>
  The repository is a typed client layer written in Python. Python strings are modelled as
  \<^typ>\<open>string\<close>, one \<^typ>\<open>char\<close> per code point, so the model covers strings whose code
  points are below 256. Exceptions are values of \<open>error\<close>, and a function that may raise
  returns \<open>error + 'a\<close> with \<open>Inl\<close> for the exception.
\<close>

datatype TunedModelState =
    TunedModelState_STATE_UNSPECIFIED
  | TunedModelState_CREATING
  | TunedModelState_ACTIVE
  | TunedModelState_FAILED

datatype State =
    State_STATE_UNSPECIFIED
  | State_STATE_PENDING_PROCESSING
  | State_STATE_ACTIVE
  | State_STATE_FAILED

datatype Operator =
    Operator_OPERATOR_UNSPECIFIED
  | Operator_LESS
  | Operator_LESS_EQUAL
  | Operator_EQUAL
  | Operator_GREATER_EQUAL
  | Operator_NOT_EQUAL
  | Operator_INCLUDES
  | Operator_EXCLUDES

text \<open>A \<^verbatim>\<open>datetime.datetime\<close>; \<open>tzinfo_utc\<close> tells whether it carries the UTC time zone.\<close>

record datetime =
  year :: int
  month :: int
  day :: int
  hour :: int
  minute :: int
  second :: int
  microsecond :: int
  tzinfo_utc :: bool

text \<open>
  The values that travel through the decoders and updaters. A dictionary with string keys
  is an association list in insertion order; an instance of a class is the class name with
  the attributes that have been assigned so far; a finite float is given by its exact value.
\<close>

datatype pyval =
    VNone
  | VInt int
  | VFloat rat
  | VStr string
  | VList "pyval list"
  | VDict "(string \<times> pyval) list"
  | VObj string "(string \<times> pyval) list"
  | VDateTime datetime
  | VTunedModelState TunedModelState
  | VState State

text \<open>
  A \<open>KeyError\<close> carries its argument: the missing key for a failed dictionary lookup, the
  message for an explicit \<^verbatim>\<open>raise KeyError(msg)\<close>. \<open>ValueError\<close> carries its message.
\<close>

datatype error =
    ValueError string
  | KeyError pyval
  | AttributeError
  | TypeError

definition bindE :: "error + 'a \<Rightarrow> ('a \<Rightarrow> error + 'b) \<Rightarrow> error + 'b" where
  "bindE m f = (case m of Inl e \<Rightarrow> Inl e | Inr x \<Rightarrow> f x)"

text \<open>
  \<^verbatim>\<open>str.lower()\<close> on code points below 256: the ASCII capitals and the Latin-1 capitals
  \<^verbatim>\<open>U+00C0..U+00DE\<close> except the multiplication sign \<^verbatim>\<open>U+00D7\<close> move up by 32.
\<close>

definition is_upper :: "char \<Rightarrow> bool" where
  "is_upper c =
     (let n = (of_char c :: int)
      in (65 \<le> n \<and> n \<le> 90) \<or> (192 \<le> n \<and> n \<le> 222 \<and> n \<noteq> 215))"

text \<open>Adding 32 to such a code point sets its bit of weight 32, which is clear in both ranges.\<close>

definition lower_char :: "char \<Rightarrow> char" where
  "lower_char c =
     (if is_upper c
      then (case c of Char b0 b1 b2 b3 b4 b5 b6 b7 \<Rightarrow> Char b0 b1 b2 b3 b4 True b6 b7)
      else c)"

definition lower :: "string \<Rightarrow> string" where
  "lower s = map lower_char s"

text \<open>
  A dictionary display \<^verbatim>\<open>{k1: v1, k2: v2, ...}\<close> inserts its entries from left to right, so
  a key written twice keeps the value written last.
\<close>

definition dict_literal :: "('k \<times> 'v) list \<Rightarrow> ('k \<rightharpoonup> 'v)" where
  "dict_literal entries = foldl (\<lambda>m (k, v). m(k \<mapsto> v)) Map.empty entries"

section \<open>Enum coercion\<close>

text \<open>
  The option unions \<^verbatim>\<open>Union[None, str, int, Enum]\<close> of the coercion functions. The enums
  themselves are protobuf enums declared outside the repository; they are integer enums,
  so a member hashes and compares as its integer value and is the same dictionary key as
  that integer.
\<close>

datatype pykey = KNone | KInt int | KStr string

datatype 'e options = ONone | OStr string | OInt int | OEnum 'e

text \<open>
  Modelled from the spec: the members of the three enums and their wire values; the
  protobuf declarations are not in the repository. A member has the integer that its table
  writes next to it. For EXCLUDES, where \<^verbatim>\<open>_OPERATOR\<close> writes 6 a second time, it is 7, the
  wire value that the claim about this table names. The members of \<open>TunedModelState\<close>,
  whose table writes \<^verbatim>\<open>int(member)\<close>, are numbered in the order in which the spec lists them.
\<close>

fun TunedModelState_int :: "TunedModelState \<Rightarrow> int" where
  "TunedModelState_int TunedModelState_STATE_UNSPECIFIED = 0"
| "TunedModelState_int TunedModelState_CREATING = 1"
| "TunedModelState_int TunedModelState_ACTIVE = 2"
| "TunedModelState_int TunedModelState_FAILED = 3"

fun State_int :: "State \<Rightarrow> int" where
  "State_int State_STATE_UNSPECIFIED = 0"
| "State_int State_STATE_PENDING_PROCESSING = 1"
| "State_int State_STATE_ACTIVE = 2"
| "State_int State_STATE_FAILED = 10"

fun Operator_int :: "Operator \<Rightarrow> int" where
  "Operator_int Operator_OPERATOR_UNSPECIFIED = 0"
| "Operator_int Operator_LESS = 1"
| "Operator_int Operator_LESS_EQUAL = 2"
| "Operator_int Operator_EQUAL = 3"
| "Operator_int Operator_GREATER_EQUAL = 4"
| "Operator_int Operator_NOT_EQUAL = 5"
| "Operator_int Operator_INCLUDES = 6"
| "Operator_int Operator_EXCLUDES = 7"

text \<open>
  The key a coercion function looks up: a string is lower-cased first
  (\<^verbatim>\<open>if isinstance(x, str): x = x.lower()\<close>), everything else is looked up as it is.
\<close>

fun lookup_key :: "('e \<Rightarrow> int) \<Rightarrow> 'e options \<Rightarrow> pykey" where
  "lookup_key val ONone = KNone"
| "lookup_key val (OStr s) = KStr (lower s)"
| "lookup_key val (OInt i) = KInt i"
| "lookup_key val (OEnum e) = KInt (val e)"

fun key_value :: "pykey \<Rightarrow> pyval" where
  "key_value KNone = VNone"
| "key_value (KInt i) = VInt i"
| "key_value (KStr s) = VStr s"

definition dict_getitem :: "(pykey \<rightharpoonup> 'v) \<Rightarrow> pykey \<Rightarrow> error + 'v" where
  "dict_getitem d k = (case d k of None \<Rightarrow> Inl (KeyError (key_value k)) | Some v \<Rightarrow> Inr v)"

subsection \<open>\<^verbatim>\<open>model_types._TUNED_MODEL_STATES\<close> and \<^verbatim>\<open>to_tuned_model_state\<close>\<close>

definition TUNED_MODEL_STATES_entries :: "(pykey \<times> TunedModelState) list" where
  "TUNED_MODEL_STATES_entries =
    [(KInt (TunedModelState_int TunedModelState_ACTIVE), TunedModelState_ACTIVE),
     (KInt (TunedModelState_int TunedModelState_ACTIVE), TunedModelState_ACTIVE),
     (KStr ''active'', TunedModelState_ACTIVE),
     (KInt (TunedModelState_int TunedModelState_CREATING), TunedModelState_CREATING),
     (KInt (TunedModelState_int TunedModelState_CREATING), TunedModelState_CREATING),
     (KStr ''creating'', TunedModelState_CREATING),
     (KInt (TunedModelState_int TunedModelState_FAILED), TunedModelState_FAILED),
     (KInt (TunedModelState_int TunedModelState_FAILED), TunedModelState_FAILED),
     (KStr ''failed'', TunedModelState_FAILED),
     (KInt (TunedModelState_int TunedModelState_STATE_UNSPECIFIED), TunedModelState_STATE_UNSPECIFIED),
     (KInt (TunedModelState_int TunedModelState_STATE_UNSPECIFIED), TunedModelState_STATE_UNSPECIFIED),
     (KStr ''state_unspecified'', TunedModelState_STATE_UNSPECIFIED),
     (KStr ''unspecified'', TunedModelState_STATE_UNSPECIFIED),
     (KNone, TunedModelState_STATE_UNSPECIFIED)]"

definition TUNED_MODEL_STATES :: "pykey \<rightharpoonup> TunedModelState" where
  "TUNED_MODEL_STATES = dict_literal TUNED_MODEL_STATES_entries"

definition to_tuned_model_state :: "TunedModelState options \<Rightarrow> error + TunedModelState" where
  "to_tuned_model_state x = dict_getitem TUNED_MODEL_STATES (lookup_key TunedModelState_int x)"

subsection \<open>\<^verbatim>\<open>retriever_types._OPERATOR\<close>, \<^verbatim>\<open>_STATE\<close>, \<^verbatim>\<open>to_operator\<close> and \<^verbatim>\<open>to_state\<close>\<close>

definition OPERATOR_entries :: "(pykey \<times> Operator) list" where
  "OPERATOR_entries =
    [(KInt (Operator_int Operator_OPERATOR_UNSPECIFIED), Operator_OPERATOR_UNSPECIFIED),
     (KInt 0, Operator_OPERATOR_UNSPECIFIED),
     (KStr ''operator_unspecified'', Operator_OPERATOR_UNSPECIFIED),
     (KStr ''unspecified'', Operator_OPERATOR_UNSPECIFIED),
     (KInt (Operator_int Operator_LESS), Operator_LESS),
     (KInt 1, Operator_LESS),
     (KStr ''operator_less'', Operator_LESS),
     (KStr ''less'', Operator_LESS),
     (KStr ''<'', Operator_LESS),
     (KInt (Operator_int Operator_LESS_EQUAL), Operator_LESS_EQUAL),
     (KInt 2, Operator_LESS_EQUAL),
     (KStr ''operator_less_equal'', Operator_LESS_EQUAL),
     (KStr ''less_equal'', Operator_LESS_EQUAL),
     (KStr ''<='', Operator_LESS_EQUAL),
     (KInt (Operator_int Operator_EQUAL), Operator_EQUAL),
     (KInt 3, Operator_EQUAL),
     (KStr ''operator_equal'', Operator_EQUAL),
     (KStr ''equal'', Operator_EQUAL),
     (KStr ''=='', Operator_EQUAL),
     (KInt (Operator_int Operator_GREATER_EQUAL), Operator_GREATER_EQUAL),
     (KInt 4, Operator_GREATER_EQUAL),
     (KStr ''operator_greater_equal'', Operator_GREATER_EQUAL),
     (KStr ''greater_equal'', Operator_GREATER_EQUAL),
     (KInt (Operator_int Operator_NOT_EQUAL), Operator_NOT_EQUAL),
     (KInt 5, Operator_NOT_EQUAL),
     (KStr ''operator_not_equal'', Operator_NOT_EQUAL),
     (KStr ''not_equal'', Operator_NOT_EQUAL),
     (KStr ''!='', Operator_NOT_EQUAL),
     (KInt (Operator_int Operator_INCLUDES), Operator_INCLUDES),
     (KInt 6, Operator_INCLUDES),
     (KStr ''operator_includes'', Operator_INCLUDES),
     (KStr ''includes'', Operator_INCLUDES),
     (KInt (Operator_int Operator_EXCLUDES), Operator_EXCLUDES),
     (KInt 6, Operator_EXCLUDES),
     (KStr ''operator_excludes'', Operator_EXCLUDES),
     (KStr ''excludes'', Operator_EXCLUDES),
     (KStr ''not in'', Operator_EXCLUDES)]"

definition OPERATOR :: "pykey \<rightharpoonup> Operator" where
  "OPERATOR = dict_literal OPERATOR_entries"

definition STATE_entries :: "(pykey \<times> State) list" where
  "STATE_entries =
    [(KInt (State_int State_STATE_UNSPECIFIED), State_STATE_UNSPECIFIED),
     (KInt 0, State_STATE_UNSPECIFIED),
     (KStr ''state_unspecifed'', State_STATE_UNSPECIFIED),
     (KStr ''unspecified'', State_STATE_UNSPECIFIED),
     (KInt (State_int State_STATE_PENDING_PROCESSING), State_STATE_PENDING_PROCESSING),
     (KInt 1, State_STATE_PENDING_PROCESSING),
     (KStr ''pending_processing'', State_STATE_PENDING_PROCESSING),
     (KStr ''pending'', State_STATE_PENDING_PROCESSING),
     (KInt (State_int State_STATE_ACTIVE), State_STATE_ACTIVE),
     (KInt 2, State_STATE_ACTIVE),
     (KStr ''state_active'', State_STATE_ACTIVE),
     (KStr ''active'', State_STATE_ACTIVE),
     (KInt (State_int State_STATE_FAILED), State_STATE_FAILED),
     (KInt 10, State_STATE_FAILED),
     (KStr ''state_failed'', State_STATE_FAILED),
     (KStr ''failed'', State_STATE_FAILED)]"

definition STATE :: "pykey \<rightharpoonup> State" where
  "STATE = dict_literal STATE_entries"

definition to_operator :: "Operator options \<Rightarrow> error + Operator" where
  "to_operator x = dict_getitem OPERATOR (lookup_key Operator_int x)"

definition to_state :: "State options \<Rightarrow> error + State" where
  "to_state x = dict_getitem STATE (lookup_key State_int x)"

section \<open>Regular expressions\<close>

text \<open>
  The part of Python's \<^verbatim>\<open>re\<close> module that the repository uses, as a backtracking matcher.
  \<open>rmatch r s\<close> lists every way in which \<open>r\<close> matches a prefix of \<open>s\<close>, in the order in
  which the backtracking engine tries them (leftmost alternative first, greedy repetition
  longest first); each entry gives the texts of the groups closed so far and the input that
  is left. \<open>Eol\<close> is \<^verbatim>\<open>$\<close> without the MULTILINE flag: it matches at the end of the input and
  just before a newline that is the last character.
\<close>

datatype regex =
    Eps
  | Cls "char \<Rightarrow> bool"
  | Seq regex regex
  | Alt regex regex
  | Opt regex
  | Rep nat nat regex
  | Plus regex
  | Grp regex
  | Eol

type_synonym rmatch = "string list \<times> string"

definition consumed :: "string \<Rightarrow> string \<Rightarrow> string" where
  "consumed s r = take (length s - length r) s"

text \<open>
  Greedy bounded repetition \<^verbatim>\<open>r{lo,hi}\<close> of a matcher \<open>f\<close>: one more round if it consumes
  input, otherwise stop here when \<open>lo\<close> rounds have been made.
\<close>

fun rep_match :: "(string \<Rightarrow> rmatch list) \<Rightarrow> nat \<Rightarrow> nat \<Rightarrow> string \<Rightarrow> rmatch list" where
  "rep_match f lo 0 s = (if lo = 0 then [([], s)] else [])"
| "rep_match f lo (Suc n) s =
     concat (map (\<lambda>(c1, r1).
        if length r1 = length s then []
        else map (\<lambda>(c2, r2). (c1 @ c2, r2)) (rep_match f (lo - 1) n r1)) (f s))
     @ (if lo = 0 then [([], s)] else [])"

lemma rep_match_cong [fundef_cong]:
  "(\<And>x. f x = g x) \<Longrightarrow> lo = lo' \<Longrightarrow> n = n' \<Longrightarrow> s = s'
     \<Longrightarrow> rep_match f lo n s = rep_match g lo' n' s'"
  by (subgoal_tac "f = g") auto

text \<open>\<^verbatim>\<open>r+\<close> makes at most as many rounds as there are characters, since each round consumes one.\<close>

fun rmatch :: "regex \<Rightarrow> string \<Rightarrow> rmatch list" where
  "rmatch Eps s = [([], s)]"
| "rmatch (Cls p) s = (case s of [] \<Rightarrow> [] | c # cs \<Rightarrow> if p c then [([], cs)] else [])"
| "rmatch (Seq a b) s =
     concat (map (\<lambda>(c1, r1). map (\<lambda>(c2, r2). (c1 @ c2, r2)) (rmatch b r1)) (rmatch a s))"
| "rmatch (Alt a b) s = rmatch a s @ rmatch b s"
| "rmatch (Opt a) s = rmatch a s @ [([], s)]"
| "rmatch (Rep lo hi a) s = rep_match (rmatch a) lo hi s"
| "rmatch (Plus a) s = rep_match (rmatch a) 1 (length s) s"
| "rmatch (Grp a) s = map (\<lambda>(c, r). (c @ [consumed s r], r)) (rmatch a s)"
| "rmatch Eol s = (if s = [] \<or> s = [CHR 0x0A] then [([], s)] else [])"

text \<open>
  \<^verbatim>\<open>re.match\<close> takes the first match at the start of the string, \<^verbatim>\<open>re.search\<close> the first match
  at the leftmost position that has one. Both give the groups and the input after the match.
\<close>

definition re_match :: "regex \<Rightarrow> string \<Rightarrow> rmatch option" where
  "re_match r s = (case rmatch r s of [] \<Rightarrow> None | m # _ \<Rightarrow> Some m)"

fun re_search :: "regex \<Rightarrow> string \<Rightarrow> rmatch option" where
  "re_search r [] = re_match r []"
| "re_search r (c # cs) = (case re_match r (c # cs) of Some m \<Rightarrow> Some m | None \<Rightarrow> re_search r cs)"

text \<open>The inputs that can be left after a match of \<open>r\<close> at the start of \<open>s\<close>.\<close>

definition rests :: "regex \<Rightarrow> string \<Rightarrow> string set" where
  "rests r s = snd ` set (rmatch r s)"

definition in_range :: "char \<Rightarrow> char \<Rightarrow> char \<Rightarrow> bool" where
  "in_range lo hi c = ((of_char lo :: int) \<le> of_char c \<and> (of_char c :: int) \<le> of_char hi)"

definition digit :: "char \<Rightarrow> bool" where
  "digit c = in_range CHR ''0'' CHR ''9'' c"

definition lower_alnum :: "char \<Rightarrow> bool" where
  "lower_alnum c = (in_range CHR ''a'' CHR ''z'' c \<or> digit c)"

text \<open>
  A pattern given as a string without other metacharacters than the dot: every character
  stands for itself, the dot for any character but the newline.
\<close>

definition pattern_chars :: "string \<Rightarrow> regex" where
  "pattern_chars p =
     foldr (\<lambda>c r. Seq (if c = CHR ''.'' then Cls (\<lambda>x. x \<noteq> CHR 0x0A) else Cls (\<lambda>x. x = c)) r) p Eps"

section \<open>Name validation (\<^verbatim>\<open>model_types.valid_tuned_model_name\<close>)\<close>

text \<open>\<^verbatim>\<open>_TUNED_MODEL_VALID_NAME = r"[a-z](([a-z0-9-]{0,61}[a-z0-9])?)$"\<close>\<close>

definition TUNED_MODEL_VALID_NAME :: regex where
  "TUNED_MODEL_VALID_NAME =
     Seq (Cls (in_range CHR ''a'' CHR ''z''))
      (Seq (Grp (Opt (Grp (Seq (Rep 0 61 (Cls (\<lambda>c. lower_alnum c \<or> c = CHR ''-'')))
                               (Cls lower_alnum)))))
           Eol)"

definition valid_tuned_model_name :: "string \<Rightarrow> bool" where
  "valid_tuned_model_name name = (re_match TUNED_MODEL_VALID_NAME name \<noteq> None)"

section \<open>Spreadsheet URLs (\<^verbatim>\<open>model_types._normalize_url\<close>)\<close>

definition startswith :: "string \<Rightarrow> string \<Rightarrow> bool" where
  "startswith s p = (take (length p) s = p)"

definition sheet_base :: string where
  "sheet_base = ''https://docs.google.com/spreadsheets''"

text \<open>
  The message of the \<open>ValueError\<close> is an ordinary string literal in the source, not an
  f-string, so the braces and the word between them are part of the message.
\<close>

definition normalize_url :: "string \<Rightarrow> error + string" where
  "normalize_url url =
     (if startswith url sheet_base then
        (case re_match (Seq (pattern_chars (sheet_base @ ''/d/'')) (Plus (Cls (\<lambda>c. c \<noteq> CHR ''/'')))) url of
           None \<Rightarrow> Inl (ValueError ''Incomplete Google Sheets URL: {data}'')
         | Some (_, rest) \<Rightarrow>
             (let tab_param =
                (case re_search (Seq (pattern_chars ''gid='') (Grp (Plus (Cls digit)))) url of
                   Some (groups, _) \<Rightarrow> ''&gid='' @ hd groups
                 | None \<Rightarrow> [])
              in Inr (consumed url rest @ ''/export?format=csv'' @ tab_param)))
      else Inr url)"

section \<open>Numbers and their text\<close>

text \<open>
  Python's \<^verbatim>\<open>float\<close> is IEEE 754 binary64. A finite float is the number it denotes, which
  is rational; such a number is a fraction \<open>(a, b)\<close> of integers with \<open>0 < b\<close>, standing for
  \<open>a / b\<close>. An operation on floats is the exact operation followed by \<open>binary64\<close>, which
  rounds to the nearest number with a 53-bit significand, ties to the even significand,
  with the gradual underflow of the format (the last bit never weighs less than
  \<open>2 ^ -1074\<close>). The model has the numbers from zero upwards and no overflow; the numbers
  below stay under a million.
\<close>

type_synonym fraction = "int \<times> int"

text \<open>The integer nearest to \<open>a / b\<close>, the even one of two that are equally near.\<close>

definition round_div :: "int \<Rightarrow> int \<Rightarrow> int" where
  "round_div a b =
     (let f = a div b; r = a mod b
      in if 2 * r < b then f else if b < 2 * r then f + 1 else if even f then f else f + 1)"

text \<open>
  For \<open>0 < a\<close>, the exponent \<open>e\<close> with \<open>2 ^ e \<le> a / b < 2 ^ (e + 1)\<close>: the difference \<open>d\<close> of
  the bit lengths or one less.
\<close>

definition floor_log2 :: "fraction \<Rightarrow> int" where
  "floor_log2 x =
     (case x of (a, b) \<Rightarrow>
        let d = bitlen a - bitlen b
        in if (if 0 \<le> d then b * 2 ^ nat d \<le> a else b \<le> a * 2 ^ nat (- d)) then d else d - 1)"

text \<open>The last bit of the significand weighs \<open>2 ^ u\<close>; the number is rounded to a multiple of it.\<close>

definition binary64 :: "fraction \<Rightarrow> fraction" where
  "binary64 x =
     (case x of (a, b) \<Rightarrow>
        if a = 0 then (0, 1)
        else let u = max (floor_log2 (a, b) - 52) (- 1074)
             in if 0 \<le> u then (round_div a (b * 2 ^ nat u) * 2 ^ nat u, 1)
                else (round_div (a * 2 ^ nat (- u)) b, 2 ^ nat (- u)))"

definition digit_value :: "char \<Rightarrow> int" where
  "digit_value c = of_char c - 48"

definition int_of_digits :: "string \<Rightarrow> int" where
  "int_of_digits ds = foldl (\<lambda>n c. 10 * n + digit_value c) 0 ds"

text \<open>The decimal digits of an integer that is not negative.\<close>

function digits_of :: "int \<Rightarrow> string" where
  "digits_of n =
     (if n < 10 then [char_of (48 + n)] else digits_of (n div 10) @ [char_of (48 + n mod 10)])"
  by pat_completeness auto
termination
  by (relation "measure nat") auto

text \<open>The format specification \<^verbatim>\<open>:06d\<close>: the sign, then the digits padded with zeros to width 6.\<close>

definition format_06d :: "int \<Rightarrow> string" where
  "format_06d n =
     (if n < 0
      then CHR ''-'' # replicate (5 - length (digits_of (- n))) CHR ''0'' @ digits_of (- n)
      else replicate (6 - length (digits_of n)) CHR ''0'' @ digits_of n)"

text \<open>
  \<^verbatim>\<open>repr\<close> of a string of code points below 256: single quotes unless the string has a
  single quote and no double quote; the quote and the backslash are escaped, tab, newline
  and carriage return have their letters, and the other characters that are not printable
  are written \<^verbatim>\<open>\xhh\<close>.
\<close>

definition hex_digit :: "int \<Rightarrow> char" where
  "hex_digit d = (if d < 10 then char_of (48 + d) else char_of (87 + d))"

definition printable :: "char \<Rightarrow> bool" where
  "printable c =
     (let n = (of_char c :: int) in (32 \<le> n \<and> n < 127) \<or> (161 \<le> n \<and> n \<noteq> 173))"

definition repr_char :: "char \<Rightarrow> char \<Rightarrow> string" where
  "repr_char quote c =
     (if c = quote \<or> c = CHR 0x5C then [CHR 0x5C, c]
      else if c = CHR 0x09 then [CHR 0x5C, CHR ''t'']
      else if c = CHR 0x0A then [CHR 0x5C, CHR ''n'']
      else if c = CHR 0x0D then [CHR 0x5C, CHR ''r'']
      else if printable c then [c]
      else [CHR 0x5C, CHR ''x'', hex_digit (of_char c div 16), hex_digit (of_char c mod 16)])"

definition repr_str :: "string \<Rightarrow> string" where
  "repr_str s =
     (let quote = (if CHR 0x27 \<in> set s \<and> CHR 0x22 \<notin> set s then CHR 0x22 else CHR 0x27)
      in quote # concat (map (repr_char quote) s) @ [quote])"

section \<open>Time decoding (\<^verbatim>\<open>model_types._fix_microseconds\<close>, \<^verbatim>\<open>idecode_time\<close>)\<close>

text \<open>
  \<^verbatim>\<open>re.sub(pattern, repl, string)\<close> for a pattern that does not match the empty string:
  every match, found from left to right, is replaced by \<open>repl\<close> of its text.
\<close>

function re_sub :: "regex \<Rightarrow> (string \<Rightarrow> string) \<Rightarrow> string \<Rightarrow> string" where
  "re_sub r repl [] = []"
| "re_sub r repl (c # cs) =
     (case re_match r (c # cs) of
        None \<Rightarrow> c # re_sub r repl cs
      | Some (_, rest) \<Rightarrow>
          if length rest < length (c # cs)
          then repl (consumed (c # cs) rest)
               @ re_sub r repl (drop (length (c # cs) - length rest) (c # cs))
          else c # re_sub r repl cs)"
  by pat_completeness auto
termination
  by (relation "measure (\<lambda>(r, repl, s). length s)") auto

text \<open>
  \<^verbatim>\<open>_fix_microseconds\<close> gets the text of a match of \<^verbatim>\<open>\.\d+\<close>, a dot and digits. \<^verbatim>\<open>float\<close>
  of it is the decimal fraction rounded to a float; the product with \<^verbatim>\<open>1e6\<close>, which is a
  float itself, is rounded again, and \<^verbatim>\<open>round\<close> takes the result to the nearest integer,
  ties to even.
\<close>

definition float_of_fraction :: "string \<Rightarrow> fraction" where
  "float_of_fraction m = binary64 (int_of_digits (tl m), 10 ^ length (tl m))"

definition fix_microseconds :: "string \<Rightarrow> string" where
  "fix_microseconds m =
     (case float_of_fraction m of (a, b) \<Rightarrow>
        (case binary64 (a * 1000000, b) of (a', b') \<Rightarrow>
           CHR ''.'' # format_06d (round_div a' b')))"

subsection \<open>\<^verbatim>\<open>datetime.datetime.strptime\<close>\<close>

text \<open>
  \<^verbatim>\<open>strptime\<close> turns the format into a regular expression, one group for each directive,
  matches it without regard to case, requires the match to cover the whole string, and
  builds the date from the groups. The directives are those of the two formats in the
  repository.
\<close>

definition one_of :: "string \<Rightarrow> regex" where
  "one_of cs = Cls (\<lambda>c. c \<in> set cs)"

fun directive_regex :: "char \<Rightarrow> regex option" where
  "directive_regex c =
    (if c = CHR ''Y'' then Some (Grp (Seq (Cls digit) (Seq (Cls digit) (Seq (Cls digit) (Cls digit)))))
     else if c = CHR ''m'' then
       Some (Grp (Alt (Seq (one_of ''1'') (one_of ''012''))
                 (Alt (Seq (one_of ''0'') (one_of ''123456789'')) (one_of ''123456789''))))
     else if c = CHR ''d'' then
       Some (Grp (Alt (Seq (one_of ''3'') (one_of ''01''))
                 (Alt (Seq (one_of ''12'') (Cls digit))
                 (Alt (Seq (one_of ''0'') (one_of ''123456789''))
                 (Alt (one_of ''123456789'') (Seq (one_of '' '') (one_of ''123456789'')))))))
     else if c = CHR ''H'' then
       Some (Grp (Alt (Seq (one_of ''2'') (one_of ''0123''))
                 (Alt (Seq (one_of ''01'') (Cls digit)) (Cls digit))))
     else if c = CHR ''M'' then
       Some (Grp (Alt (Seq (one_of ''012345'') (Cls digit)) (Cls digit)))
     else if c = CHR ''S'' then
       Some (Grp (Alt (Seq (one_of ''6'') (one_of ''01''))
                 (Alt (Seq (one_of ''012345'') (Cls digit)) (Cls digit))))
     else if c = CHR ''f'' then Some (Grp (Rep 1 6 (Cls digit)))
     else None)"

text \<open>The regular expression of a format and the directives of its groups, in order.\<close>

fun format_regex :: "string \<Rightarrow> (regex \<times> string) option" where
  "format_regex [] = Some (Eps, [])"
| "format_regex [c] =
     (if c = CHR ''%'' then None else Some (Cls (\<lambda>x. lower_char x = lower_char c), []))"
| "format_regex (c # d # cs) =
     (if c = CHR ''%'' then
        (case (directive_regex d, format_regex cs) of
           (Some r, Some (rs, ds)) \<Rightarrow> Some (Seq r rs, d # ds)
         | _ \<Rightarrow> None)
      else
        (case format_regex (d # cs) of
           Some (rs, ds) \<Rightarrow> Some (Seq (Cls (\<lambda>x. lower_char x = lower_char c)) rs, ds)
         | None \<Rightarrow> None))"

definition int_of_group :: "string \<Rightarrow> int" where
  "int_of_group g = int_of_digits (filter digit g)"

definition group_of :: "char \<Rightarrow> string \<Rightarrow> string list \<Rightarrow> string option" where
  "group_of d ds groups = map_of (zip ds groups) d"

definition is_leap :: "int \<Rightarrow> bool" where
  "is_leap y = (y mod 4 = 0 \<and> (y mod 100 \<noteq> 0 \<or> y mod 400 = 0))"

definition days_in_month :: "int \<Rightarrow> int \<Rightarrow> int" where
  "days_in_month y m =
     (if m = 2 then (if is_leap y then 29 else 28)
      else if m = 4 \<or> m = 6 \<or> m = 9 \<or> m = 11 then 30 else 31)"

definition strptime :: "string \<Rightarrow> string \<Rightarrow> error + datetime" where
  "strptime data_string format =
     (case format_regex format of
        None \<Rightarrow> Inl (ValueError ''bad directive in format'')
      | Some (r, ds) \<Rightarrow>
         (case re_match r data_string of
            None \<Rightarrow> Inl (ValueError (''time data '' @ repr_str data_string
                                     @ '' does not match format '' @ repr_str format))
          | Some (groups, rest) \<Rightarrow>
             if rest \<noteq> [] then Inl (ValueError (''unconverted data remains: '' @ rest))
             else
               let field = (\<lambda>d dflt. case group_of d ds groups of
                                        None \<Rightarrow> dflt | Some g \<Rightarrow> int_of_group g);
                   y = field CHR ''Y'' 1900; m = field CHR ''m'' 1; d = field CHR ''d'' 1;
                   H = field CHR ''H'' 0; M = field CHR ''M'' 0; S = field CHR ''S'' 0;
                   f = (case group_of CHR ''f'' ds groups of
                          None \<Rightarrow> 0
                        | Some g \<Rightarrow> int_of_digits (g @ replicate (6 - length g) CHR ''0''))
               in if y = 0 then Inl (ValueError ''year 0 is out of range'')
                  else if days_in_month y m < d
                  then Inl (ValueError ''day is out of range for month'')
                  else if 59 < S then Inl (ValueError ''second must be in 0..59'')
                  else Inr \<lparr>year = y, month = m, day = d, hour = H, minute = M, second = S,
                            microsecond = f, tzinfo_utc = False\<rparr>))"

subsection \<open>\<^verbatim>\<open>idecode_time\<close>\<close>

text \<open>
  \<^verbatim>\<open>idecode_time(parent, name)\<close> changes the dictionary \<open>parent\<close> in place; the model returns
  the dictionary after the call. \<^verbatim>\<open>pop\<close> removes the key and the assignment appends it again.
  A value that is neither \<open>None\<close> nor a string ends in a \<open>TypeError\<close>, at the membership test
  or in the functions that want a string.
\<close>

definition decode_time_string :: "string \<Rightarrow> error + datetime" where
  "decode_time_string time =
     (if CHR ''.'' \<in> set time
      then strptime (re_sub (Seq (Cls (\<lambda>c. c = CHR ''.'')) (Plus (Cls digit))) fix_microseconds time)
             ''%Y-%m-%dT%H:%M:%S.%fZ''
      else strptime time ''%Y-%m-%dT%H:%M:%SZ'')"

definition idecode_time ::
  "(string \<times> pyval) list \<Rightarrow> string \<Rightarrow> error + (string \<times> pyval) list" where
  "idecode_time parent name =
     (case map_of parent name of
        None \<Rightarrow> Inr parent
      | Some VNone \<Rightarrow> Inr (AList.delete name parent)
      | Some (VStr time) \<Rightarrow>
          (case decode_time_string time of
             Inl e \<Rightarrow> Inl e
           | Inr dt \<Rightarrow>
               Inr (AList.update name (VDateTime (dt\<lparr>tzinfo_utc := True\<rparr>))
                      (AList.delete name parent)))
      | Some _ \<Rightarrow> Inl TypeError)"

section \<open>Objects and dictionaries\<close>

text \<open>
  Attribute access on an instance: \<^verbatim>\<open>getattr\<close> raises \<open>AttributeError\<close> for an attribute that
  has not been assigned, \<^verbatim>\<open>setattr\<close> replaces an attribute where it stands or appends a new
  one. A value that is not an instance (a string, a list, a date) takes no new attribute.
  Methods and the attributes of built-in values are not part of the model.
\<close>

fun getattr :: "pyval \<Rightarrow> string \<Rightarrow> error + pyval" where
  "getattr (VObj c attrs) a = (case map_of attrs a of None \<Rightarrow> Inl AttributeError | Some v \<Rightarrow> Inr v)"
| "getattr _ a = Inl AttributeError"

fun setattr :: "pyval \<Rightarrow> string \<Rightarrow> pyval \<Rightarrow> error + pyval" where
  "setattr (VObj c attrs) a v = Inr (VObj c (AList.update a v attrs))"
| "setattr _ a v = Inl AttributeError"

text \<open>Subscription \<^verbatim>\<open>x[key]\<close> with a string key: only a dictionary can be indexed by a string.\<close>

fun py_getitem :: "pyval \<Rightarrow> string \<Rightarrow> error + pyval" where
  "py_getitem (VDict d) k = (case map_of d k of None \<Rightarrow> Inl (KeyError (VStr k)) | Some v \<Rightarrow> Inr v)"
| "py_getitem _ k = Inl TypeError"

text \<open>Iteration: a list gives its elements, a dictionary its keys, a string its characters.\<close>

fun py_iter :: "pyval \<Rightarrow> error + pyval list" where
  "py_iter (VList xs) = Inr xs"
| "py_iter (VDict d) = Inr (map (\<lambda>(k, v). VStr k) d)"
| "py_iter (VStr s) = Inr (map (\<lambda>c. VStr [c]) s)"
| "py_iter _ = Inl TypeError"

text \<open>A loop that stops at the first exception.\<close>

fun mapE :: "('a \<Rightarrow> error + 'b) \<Rightarrow> 'a list \<Rightarrow> error + 'b list" where
  "mapE f [] = Inr []"
| "mapE f (x # xs) =
     (case f x of Inl e \<Rightarrow> Inl e
      | Inr y \<Rightarrow> (case mapE f xs of Inl e \<Rightarrow> Inl e | Inr ys \<Rightarrow> Inr (y # ys)))"

lemma mapE_cong [fundef_cong]:
  assumes "xs = ys" and "\<And>x. x \<in> set ys \<Longrightarrow> f x = g x"
  shows "mapE f xs = mapE g ys"
proof -
  have "mapE f ys = mapE g ys" using assms(2)
    by (induction ys) (auto split: sum.splits)
  with assms(1) show ?thesis by simp
qed

text \<open>\<^verbatim>\<open>str.split(sep)\<close> with a separator of one character.\<close>

fun str_split :: "char \<Rightarrow> string \<Rightarrow> string list" where
  "str_split sep [] = [[]]"
| "str_split sep (c # cs) =
     (if c = sep then [] # str_split sep cs
      else (case str_split sep cs of [] \<Rightarrow> [[c]] | p # ps \<Rightarrow> (c # p) # ps))"

text \<open>
  A dataclass instance is made from keyword arguments: a keyword that is not a field is a
  \<open>TypeError\<close>, and a field without argument takes its default. All the dataclasses built
  this way in the repository give every field a default.
\<close>

definition dataclass_init ::
  "string \<Rightarrow> (string \<times> pyval) list \<Rightarrow> (string \<times> pyval) list \<Rightarrow> error + pyval" where
  "dataclass_init c defaults kwargs =
     (if \<exists>k \<in> set (map fst kwargs). k \<notin> set (map fst defaults) then Inl TypeError
      else Inr (VObj c (map (\<lambda>(f, d). (f, case map_of kwargs f of None \<Rightarrow> d | Some v \<Rightarrow> v))
                          defaults)))"

text \<open>The fields of the dataclasses of \<^verbatim>\<open>retriever_types\<close>, by class name.\<close>

definition dataclass_fields :: "string \<Rightarrow> string list option" where
  "dataclass_fields c =
     (if c = ''ChunkData'' then Some [''string_value'']
      else if c = ''CustomMetadata''
      then Some [''key'', ''string_value'', ''string_list_value'', ''numeric_value'']
      else if c = ''Corpus'' then Some [''name'', ''display_name'', ''create_time'', ''update_time'']
      else if c = ''Document''
      then Some [''name'', ''display_name'', ''custom_metadata'', ''create_time'', ''update_time'']
      else if c = ''Chunk''
      then Some [''name'', ''data'', ''custom_metadata'', ''state'', ''create_time'', ''update_time'']
      else None)"

text \<open>
  \<^verbatim>\<open>dataclasses.asdict\<close>: the fields of a dataclass instance, in their order, as a
  dictionary, with instances inside lists, dictionaries and fields converted too. A field
  that has not been assigned raises \<open>AttributeError\<close>. \<open>select_fields\<close> picks the converted
  fields; what the conversion of another attribute gives plays no role.
\<close>

fun select_fields :: "string list \<Rightarrow> (string \<times> (error + pyval)) list \<Rightarrow> error + (string \<times> pyval) list" where
  "select_fields [] conv = Inr []"
| "select_fields (f # fs) conv =
     (case map_of conv f of
        None \<Rightarrow> Inl AttributeError
      | Some (Inl e) \<Rightarrow> Inl e
      | Some (Inr v) \<Rightarrow> (case select_fields fs conv of Inl e \<Rightarrow> Inl e | Inr kvs \<Rightarrow> Inr ((f, v) # kvs)))"

fun asdict_inner :: "pyval \<Rightarrow> error + pyval" where
  "asdict_inner (VObj c attrs) =
     (case dataclass_fields c of
        None \<Rightarrow> Inr (VObj c attrs)
      | Some fs \<Rightarrow>
          (case select_fields fs (map (\<lambda>(k, v). (k, asdict_inner v)) attrs) of
             Inl e \<Rightarrow> Inl e | Inr kvs \<Rightarrow> Inr (VDict kvs)))"
| "asdict_inner (VList xs) =
     (case mapE asdict_inner xs of Inl e \<Rightarrow> Inl e | Inr ys \<Rightarrow> Inr (VList ys))"
| "asdict_inner (VDict d) =
     (case mapE (\<lambda>(k, v). case asdict_inner v of Inl e \<Rightarrow> Inl e | Inr w \<Rightarrow> Inr (k, w)) d of
        Inl e \<Rightarrow> Inl e | Inr kvs \<Rightarrow> Inr (VDict kvs))"
| "asdict_inner v = Inr v"

definition asdict :: "pyval \<Rightarrow> error + pyval" where
  "asdict obj =
     (case obj of
        VObj c attrs \<Rightarrow> (if dataclass_fields c = None then Inl TypeError else asdict_inner obj)
      | _ \<Rightarrow> Inl TypeError)"

section \<open>Retriever entities (\<^verbatim>\<open>retriever_types\<close>)\<close>

text \<open>
  \<open>Corpus\<close>, \<open>Document\<close> and \<open>Chunk\<close> are class instances whose attributes the updater
  changes by name, so an entity is a \<open>VObj\<close>. A method that changes \<open>self\<close> returns the
  entity after the call together with its outcome. Every method hands a request to an
  injected client; the model gives the request, and what the client and the decoding of
  its response do afterwards is outside it.
\<close>

type_synonym metadata_filter_dict = "string \<times> (pyval \<times> Operator) list"

datatype request =
    UpdateCorpusRequest pyval "string list"
  | UpdateDocumentRequest pyval "string list"
  | UpdateChunkRequest pyval "string list"
  | QueryCorpusRequest pyval string "metadata_filter_dict list" "int option"
  | QueryDocumentRequest pyval string "metadata_filter_dict list" "int option"

subsection \<open>Queries\<close>

text \<open>The dataclasses \<open>Condition(value, operation)\<close> and \<open>MetadataFilter(key, conditions)\<close>.\<close>

datatype Condition = Condition pyval "Operator options"

datatype MetadataFilter = MetadataFilter string Condition

fun create_metadata_filters :: "MetadataFilter \<Rightarrow> error + metadata_filter_dict" where
  "create_metadata_filters (MetadataFilter k (Condition v operation)) =
     bindE (to_operator operation) (\<lambda>oper. Inr (k, [(v, oper)]))"

text \<open>
  The loop over \<^verbatim>\<open>metadata_filters\<close>, which is skipped when the argument is \<open>None\<close> or empty.
\<close>

definition make_filters :: "MetadataFilter list option \<Rightarrow> error + metadata_filter_dict list" where
  "make_filters metadata_filters =
     (case metadata_filters of None \<Rightarrow> Inr [] | Some mfs \<Rightarrow> mapE create_metadata_filters mfs)"

text \<open>
  \<^verbatim>\<open>Corpus.query\<close>: the test of \<^verbatim>\<open>results_count\<close> comes first, and only a count that is
  neither \<open>None\<close> nor zero is tested.
\<close>

definition Corpus_query ::
  "pyval \<Rightarrow> string \<Rightarrow> MetadataFilter list option \<Rightarrow> int option \<Rightarrow> error + request" where
  "Corpus_query self query metadata_filters results_count =
     (if (case results_count of None \<Rightarrow> False | Some n \<Rightarrow> n \<noteq> 0 \<and> 100 < n)
      then Inl (ValueError ''Number of results returned must be between 1 and 100.'')
      else bindE (make_filters metadata_filters) (\<lambda>m_f.
           bindE (getattr self ''name'') (\<lambda>name.
           Inr (QueryCorpusRequest name query m_f results_count))))"

definition Document_query ::
  "pyval \<Rightarrow> string \<Rightarrow> MetadataFilter list option \<Rightarrow> int option \<Rightarrow> error + request" where
  "Document_query self query metadata_filters results_count =
     (if (case results_count of None \<Rightarrow> False | Some n \<Rightarrow> n \<noteq> 0 \<and> (n < 0 \<or> 100 \<le> n))
      then Inl (ValueError ''Number of results returned must be between 1 and 100.'')
      else bindE (make_filters metadata_filters) (\<lambda>m_f.
           bindE (getattr self ''name'') (\<lambda>name.
           Inr (QueryDocumentRequest name query m_f results_count))))"

subsection \<open>Partial updates\<close>

text \<open>
  Modelled from the spec: \<^verbatim>\<open>flatten_update_paths\<close> of \<^verbatim>\<open>google.generativeai.utils\<close>, which
  is not among the sources. The spec has it expand every value that is a mapping into
  leaves with dotted paths, in insertion order. The leaves are entered into a new
  dictionary one after the other, so a path that comes twice keeps its first place and
  its last value.
\<close>

fun flatten_leaves :: "(string \<times> pyval) list \<Rightarrow> (string \<times> pyval) list" where
  "flatten_leaves [] = []"
| "flatten_leaves ((k, v) # rest) =
     (case v of
        VDict d \<Rightarrow> map (\<lambda>(sub_key, sub_value). (k @ ''.'' @ sub_key, sub_value)) (flatten_leaves d)
      | _ \<Rightarrow> [(k, v)])
     @ flatten_leaves rest"

definition flatten_update_paths :: "(string \<times> pyval) list \<Rightarrow> (string \<times> pyval) list" where
  "flatten_update_paths updates =
     foldl (\<lambda>new_updates (k, v). AList.update k v new_updates) [] (flatten_leaves updates)"

text \<open>
  \<^verbatim>\<open>_apply_update\<close>, the same in the three classes: walk the parts of the path but the last
  with \<^verbatim>\<open>getattr\<close>, then set the last part. The object reached is changed in place, so the
  change shows in every object on the way; objects are values here, and each of them is
  rebuilt around the changed one.
\<close>

fun walk_update :: "pyval \<Rightarrow> string list \<Rightarrow> string \<Rightarrow> pyval \<Rightarrow> error + pyval" where
  "walk_update self [] final v = setattr self final v"
| "walk_update self (part # parts) final v =
     bindE (getattr self part) (\<lambda>sub.
     bindE (walk_update sub parts final v) (\<lambda>sub'.
     setattr self part sub'))"

definition apply_update :: "pyval \<Rightarrow> string \<Rightarrow> pyval \<Rightarrow> error + pyval" where
  "apply_update self path v =
     (let parts = str_split CHR ''.'' path in walk_update self (butlast parts) (last parts) v)"

text \<open>The loop \<^verbatim>\<open>for path, value in updates.items(): self._apply_update(path, value)\<close>.\<close>

fun apply_updates :: "pyval \<Rightarrow> (string \<times> pyval) list \<Rightarrow> (error + unit) \<times> pyval" where
  "apply_updates self [] = (Inr (), self)"
| "apply_updates self ((path, v) # rest) =
     (case apply_update self path v of
        Inl e \<Rightarrow> (Inl e, self)
      | Inr self' \<Rightarrow> apply_updates self' rest)"

definition Corpus_to_dict :: "pyval \<Rightarrow> error + pyval" where
  "Corpus_to_dict self =
     bindE (getattr self ''name'') (\<lambda>name.
     bindE (getattr self ''display_name'') (\<lambda>display_name.
     Inr (VDict [(''name'', name), (''display_name'', display_name)])))"

definition Document_to_dict :: "pyval \<Rightarrow> error + pyval" where
  "Document_to_dict self =
     bindE (getattr self ''name'') (\<lambda>name.
     bindE (getattr self ''display_name'') (\<lambda>display_name.
     bindE (getattr self ''custom_metadata'') (\<lambda>custom_metadata.
     Inr (VDict [(''name'', name), (''display_name'', display_name),
                 (''custom_metadata'', custom_metadata)]))))"

definition Chunk_to_dict :: "pyval \<Rightarrow> error + pyval" where
  "Chunk_to_dict self =
     bindE (getattr self ''name'') (\<lambda>name.
     bindE (getattr self ''data'') (\<lambda>data.
     bindE (asdict data) (\<lambda>data_dict.
     bindE (getattr self ''custom_metadata'') (\<lambda>custom_metadata.
     bindE (py_iter custom_metadata) (\<lambda>cms.
     bindE (mapE asdict cms) (\<lambda>cm_dicts.
     bindE (getattr self ''state'') (\<lambda>state.
     Inr (VDict [(''name'', name), (''data'', data_dict),
                 (''custom_metadata'', VList cm_dicts), (''state'', state)]))))))))"

text \<open>
  The body shared by the three \<^verbatim>\<open>update\<close> methods: flatten, check every path against the
  one path that may be updated, fill the field mask, apply the updates, build the request.
  \<open>message\<close> makes the text of the \<open>ValueError\<close> from the first path that is not allowed.
\<close>

definition update_entity ::
  "string \<Rightarrow> (string \<Rightarrow> string) \<Rightarrow> (pyval \<Rightarrow> error + pyval) \<Rightarrow> (pyval \<Rightarrow> string list \<Rightarrow> request)
     \<Rightarrow> pyval \<Rightarrow> (string \<times> pyval) list \<Rightarrow> (error + request) \<times> pyval" where
  "update_entity allowed message to_dict make_request self updates0 =
     (let updates = flatten_update_paths updates0 in
      case find (\<lambda>item. item \<noteq> allowed) (map fst updates) of
        Some item \<Rightarrow> (Inl (ValueError (message item)), self)
      | None \<Rightarrow>
          let field_mask = map fst updates in
          (case apply_updates self updates of
             (Inl e, self') \<Rightarrow> (Inl e, self')
           | (Inr _, self') \<Rightarrow>
               (case to_dict self' of
                  Inl e \<Rightarrow> (Inl e, self')
                | Inr d \<Rightarrow> (Inr (make_request d field_mask), self'))))"

definition Corpus_update :: "pyval \<Rightarrow> (string \<times> pyval) list \<Rightarrow> (error + request) \<times> pyval" where
  "Corpus_update =
     update_entity ''display_name''
       (\<lambda>item. ''At this time, only `display_name` can be updated for `Corpus`.'')
       Corpus_to_dict UpdateCorpusRequest"

definition Document_update :: "pyval \<Rightarrow> (string \<times> pyval) list \<Rightarrow> (error + request) \<times> pyval" where
  "Document_update =
     update_entity ''display_name''
       (\<lambda>item. ''At this time, only `display_name` can be updated for `Document`.'')
       Document_to_dict UpdateDocumentRequest"

definition Chunk_update :: "pyval \<Rightarrow> (string \<times> pyval) list \<Rightarrow> (error + request) \<times> pyval" where
  "Chunk_update =
     update_entity ''data.string_value''
       (\<lambda>item. ''At this time, only `data` can be updated for `Chunk`. Got '' @ item @ ''.'')
       Chunk_to_dict UpdateChunkRequest"

subsection \<open>\<^verbatim>\<open>Chunk.__init__\<close>\<close>

text \<open>
  \<^verbatim>\<open>CustomMetadata(*cm)\<close>: the elements of \<open>cm\<close> are the positional arguments \<open>key\<close>,
  \<open>string_value\<close>, \<open>string_list_value\<close>, \<open>numeric_value\<close>, of which all but the first default
  to \<open>None\<close>.
\<close>

definition CustomMetadata_init :: "pyval list \<Rightarrow> error + pyval" where
  "CustomMetadata_init args =
     (if args = [] \<or> 4 < length args then Inl TypeError
      else Inr (VObj ''CustomMetadata''
                  (zip [''key'', ''string_value'', ''string_list_value'', ''numeric_value'']
                       (args @ replicate (4 - length args) VNone))))"

text \<open>A time argument of the constructor: \<open>None\<close>, a \<open>datetime\<close>, or else a string to parse.\<close>

fun time_argument :: "pyval \<Rightarrow> error + pyval" where
  "time_argument VNone = Inr VNone"
| "time_argument (VDateTime dt) = Inr (VDateTime dt)"
| "time_argument (VStr s) =
     bindE (strptime s ''%Y-%m-%dT%H:%M:%S.%fZ'') (\<lambda>dt. Inr (VDateTime dt))"
| "time_argument _ = Inl TypeError"

text \<open>
  The constructor assigns \<open>name\<close>, then \<open>data\<close> in the two branches for a string and for a
  dictionary and in no other case, then the remaining attributes.
\<close>

definition Chunk_init ::
  "pyval \<Rightarrow> pyval \<Rightarrow> pyval \<Rightarrow> State options \<Rightarrow> pyval \<Rightarrow> pyval \<Rightarrow> error + pyval" where
  "Chunk_init name data custom_metadata state create_time update_time =
     bindE (setattr (VObj ''Chunk'' []) ''name'' name) (\<lambda>self.
     bindE (case data of
              VStr s \<Rightarrow> setattr self ''data'' (VObj ''ChunkData'' [(''string_value'', VStr s)])
            | VDict d \<Rightarrow>
                bindE (py_getitem (VDict d) ''string_value'') (\<lambda>sv.
                setattr self ''data'' (VObj ''ChunkData'' [(''string_value'', sv)]))
            | _ \<Rightarrow> Inr self) (\<lambda>self.
     bindE (case custom_metadata of
              VNone \<Rightarrow> Inr []
            | _ \<Rightarrow> bindE (py_iter custom_metadata)
                     (mapE (\<lambda>cm. bindE (py_iter cm) CustomMetadata_init))) (\<lambda>cms.
     bindE (setattr self ''custom_metadata'' (VList cms)) (\<lambda>self.
     bindE (to_state state) (\<lambda>st.
     bindE (setattr self ''state'' (VState st)) (\<lambda>self.
     bindE (time_argument create_time) (\<lambda>ct.
     bindE (setattr self ''create_time'' ct) (\<lambda>self.
     bindE (time_argument update_time) (\<lambda>ut.
     setattr self ''update_time'' ut)))))))))"

section \<open>Decoding a tuned model (\<^verbatim>\<open>model_types.decode_tuned_model\<close>)\<close>

text \<open>\<^verbatim>\<open>d.pop(key, None)\<close> gives the value of the key, or \<open>None\<close>, and removes the key.\<close>

definition dict_get :: "(string \<times> pyval) list \<Rightarrow> string \<Rightarrow> pyval" where
  "dict_get d k = (case map_of d k of None \<Rightarrow> VNone | Some v \<Rightarrow> v)"

text \<open>
  The state of the raw record is looked up in \<^verbatim>\<open>_TUNED_MODEL_STATES\<close> whatever it is. A float
  is the key of the integer it equals; lists, dictionaries and dataclass instances cannot
  be hashed; any other value is no key of the table.
\<close>

fun coerce_state :: "pyval \<Rightarrow> error + TunedModelState" where
  "coerce_state VNone = to_tuned_model_state ONone"
| "coerce_state (VStr s) = to_tuned_model_state (OStr s)"
| "coerce_state (VInt i) = to_tuned_model_state (OInt i)"
| "coerce_state (VTunedModelState e) = to_tuned_model_state (OEnum e)"
| "coerce_state (VFloat x) =
     (if x = of_int \<lfloor>x\<rfloor>
      then (case to_tuned_model_state (OInt \<lfloor>x\<rfloor>) of
              Inl e \<Rightarrow> Inl (KeyError (VFloat x)) | Inr s \<Rightarrow> Inr s)
      else Inl (KeyError (VFloat x)))"
| "coerce_state (VList xs) = Inl TypeError"
| "coerce_state (VDict d) = Inl TypeError"
| "coerce_state (VObj c attrs) = Inl TypeError"
| "coerce_state v = Inl (KeyError v)"

text \<open>
  The object of a call \<^verbatim>\<open>x.pop(name, None)\<close> has to be a dictionary: a list takes one
  argument at most, and no other value has the method.
\<close>

fun pop_target :: "pyval \<Rightarrow> error + (string \<times> pyval) list" where
  "pop_target (VDict d) = Inr d"
| "pop_target (VList xs) = Inl TypeError"
| "pop_target _ = Inl AttributeError"

definition Hyperparameters_defaults :: "(string \<times> pyval) list" where
  "Hyperparameters_defaults =
     [(''epoch_count'', VInt 0), (''batch_size'', VInt 0), (''learning_rate'', VFloat 0)]"

definition TuningTask_defaults :: "(string \<times> pyval) list" where
  "TuningTask_defaults =
     [(''start_time'', VNone), (''complete_time'', VNone), (''snapshots'', VList []),
      (''hyperparameters'', VNone)]"

definition TunedModel_defaults :: "(string \<times> pyval) list" where
  "TunedModel_defaults =
     [(''name'', VNone), (''source_model'', VNone), (''base_model'', VNone),
      (''display_name'', VStr []), (''description'', VStr []), (''temperature'', VNone),
      (''top_p'', VNone), (''top_k'', VNone),
      (''state'', VTunedModelState TunedModelState_STATE_UNSPECIFIED),
      (''create_time'', VNone), (''update_time'', VNone), (''tuning_task'', VNone)]"

text \<open>\<^verbatim>\<open>Hyperparameters(**hype)\<close>: the argument after \<^verbatim>\<open>**\<close> has to be a mapping.\<close>

fun make_hyperparameters :: "pyval \<Rightarrow> error + pyval" where
  "make_hyperparameters (VDict h) = dataclass_init ''Hyperparameters'' Hyperparameters_defaults h"
| "make_hyperparameters _ = Inl TypeError"

text \<open>
  The loop over the snapshots decodes the time of each snapshot in place. A list of
  dictionaries is the expected shape; a dictionary or a string would be iterated by keys or
  characters, which have no \<^verbatim>\<open>pop\<close>.
\<close>

definition decode_snapshot :: "pyval \<Rightarrow> error + pyval" where
  "decode_snapshot snap =
     bindE (pop_target snap) (\<lambda>d. bindE (idecode_time d ''compute_time'') (\<lambda>d'. Inr (VDict d')))"

fun decode_snapshots :: "pyval \<Rightarrow> error + pyval" where
  "decode_snapshots (VList xs) = bindE (mapE decode_snapshot xs) (\<lambda>ys. Inr (VList ys))"
| "decode_snapshots (VDict d) = (if d = [] then Inr (VDict []) else Inl AttributeError)"
| "decode_snapshots (VStr s) = (if s = [] then Inr (VStr []) else Inl AttributeError)"
| "decode_snapshots _ = Inl TypeError"

text \<open>The block under \<^verbatim>\<open>if task is not None\<close>.\<close>

definition decode_tuning_task :: "pyval \<Rightarrow> error + pyval" where
  "decode_tuning_task task0 =
     bindE (pop_target task0) (\<lambda>task.
     let hype = dict_get task ''hyperparameters'';
         task = AList.delete ''hyperparameters'' task
     in
     bindE (if hype \<noteq> VNone
            then bindE (make_hyperparameters hype) (\<lambda>h. Inr (AList.update ''hyperparameters'' h task))
            else Inr task) (\<lambda>task.
     bindE (idecode_time task ''start_time'') (\<lambda>task.
     bindE (idecode_time task ''complete_time'') (\<lambda>task.
     let snapshots = dict_get task ''snapshots'';
         task = AList.delete ''snapshots'' task
     in
     bindE (if snapshots \<noteq> VNone
            then bindE (decode_snapshots snapshots) (\<lambda>s. Inr (AList.update ''snapshots'' s task))
            else Inr task) (\<lambda>task.
     dataclass_init ''TuningTask'' TuningTask_defaults task)))))"

text \<open>
  The two source fields of the raw record are removed, and \<^verbatim>\<open>base_model\<close> and
  \<^verbatim>\<open>source_model\<close> are set from the one that is not \<open>None\<close>, \<^verbatim>\<open>base_model\<close> first.
\<close>

definition reconcile_source :: "(string \<times> pyval) list \<Rightarrow> error + (string \<times> pyval) list" where
  "reconcile_source tuned_model0 =
     (let base_model = dict_get tuned_model0 ''base_model'';
          tuned_model1 = AList.delete ''base_model'' tuned_model0;
          tuned_model_source = dict_get tuned_model1 ''tuned_model_source'';
          tuned_model = AList.delete ''tuned_model_source'' tuned_model1
      in if base_model \<noteq> VNone
         then Inr (AList.update ''source_model'' base_model
                    (AList.update ''base_model'' base_model tuned_model))
         else if tuned_model_source \<noteq> VNone
         then bindE (py_getitem tuned_model_source ''base_model'') (\<lambda>b.
              bindE (py_getitem tuned_model_source ''tuned_model'') (\<lambda>t.
              Inr (AList.update ''source_model'' t (AList.update ''base_model'' b tuned_model))))
         else Inr tuned_model)"

text \<open>
  The last step before the object is built: the task is removed from the record, and a task
  that is not \<open>None\<close> is decoded and put back.
\<close>

definition decode_task_field :: "(string \<times> pyval) list \<Rightarrow> error + (string \<times> pyval) list" where
  "decode_task_field tuned_model0 =
     (let task = dict_get tuned_model0 ''tuning_task'';
          tuned_model = AList.delete ''tuning_task'' tuned_model0
      in if task \<noteq> VNone
         then bindE (decode_tuning_task task) (\<lambda>t. Inr (AList.update ''tuning_task'' t tuned_model))
         else Inr tuned_model)"

text \<open>
  \<^verbatim>\<open>decode_tuned_model\<close> on the raw record as a dictionary; a protobuf message is turned into
  one by its own \<^verbatim>\<open>to_dict\<close> before anything else.
\<close>

definition decode_tuned_model :: "(string \<times> pyval) list \<Rightarrow> error + pyval" where
  "decode_tuned_model tuned_model0 =
     bindE (coerce_state (dict_get tuned_model0 ''state'')) (\<lambda>state.
     bindE (reconcile_source
              (AList.update ''state'' (VTunedModelState state)
                 (AList.delete ''state'' tuned_model0))) (\<lambda>tuned_model.
     bindE (idecode_time tuned_model ''create_time'') (\<lambda>tuned_model.
     bindE (idecode_time tuned_model ''update_time'') (\<lambda>tuned_model.
     bindE (decode_task_field tuned_model) (\<lambda>tuned_model.
     dataclass_init ''TunedModel'' TunedModel_defaults tuned_model)))))"

section \<open>Tuning data (\<^verbatim>\<open>model_types.encode_tuning_data\<close>)\<close>

text \<open>
  A dataset is the sequence of its examples, each a pair of \<^verbatim>\<open>text_input\<close> and \<^verbatim>\<open>output\<close>.
  The data to encode are typed as in the source: a mapping from strings to sequences of
  strings, or a sequence of examples. Strings and paths, which lead to a file or a
  download, are outside the model.
\<close>

type_synonym Dataset = "(string \<times> string) list"

datatype TuningExampleOptions =
    Example_message "string \<times> string"
  | Example_sequence "string list"
  | Example_dict "(string \<times> string) list"

datatype TuningDataOptions =
    Data_dataset Dataset
  | Data_mapping "(string \<times> string list) list"
  | Data_iterable "TuningExampleOptions list"

text \<open>\<^verbatim>\<open>repr\<close> of a list of strings, as in the message of the \<open>KeyError\<close>.\<close>

fun join :: "string \<Rightarrow> string list \<Rightarrow> string" where
  "join sep [] = []"
| "join sep [x] = x"
| "join sep (x # y # ys) = x @ sep @ join sep (y # ys)"

definition repr_list :: "string list \<Rightarrow> string" where
  "repr_list xs = ''['' @ join '', '' (map repr_str xs) @ '']''"

text \<open>
  \<^verbatim>\<open>_convert_dict\<close>: both columns are looked up, then \<^verbatim>\<open>zip\<close> pairs them up to the end of the
  shorter one. \<^verbatim>\<open>str\<close> of a string is the string.
\<close>

definition convert_dict ::
  "(string \<times> string list) list \<Rightarrow> string \<Rightarrow> string \<Rightarrow> error + Dataset" where
  "convert_dict data input_key output_key =
     (case map_of data input_key of
        None \<Rightarrow> Inl (KeyError (VStr (''input_key is '' @ [CHR 0x22] @ input_key @ [CHR 0x22]
                                      @ '', but data has keys: ''
                                      @ repr_list (sort (map fst data)))))
      | Some inputs \<Rightarrow>
         (case map_of data output_key of
            None \<Rightarrow> Inl (KeyError (VStr (''output_key is '' @ [CHR 0x22] @ output_key @ [CHR 0x22]
                                          @ '', but data has keys: ''
                                          @ repr_list (sort (map fst data)))))
          | Some outputs \<Rightarrow> Inr (map (\<lambda>(i, out). (i, out)) (zip inputs outputs))))"

text \<open>
  \<^verbatim>\<open>encode_tuning_example\<close>: a message is kept, a tuple or list is unpacked into two
  (\<^verbatim>\<open>a, b = example\<close>, which raises \<open>ValueError\<close> for any other length), and anything else
  is indexed by the two keys.
\<close>

fun encode_tuning_example ::
  "TuningExampleOptions \<Rightarrow> string \<Rightarrow> string \<Rightarrow> error + string \<times> string" where
  "encode_tuning_example (Example_message m) input_key output_key = Inr m"
| "encode_tuning_example (Example_sequence xs) input_key output_key =
     (case xs of
        [a, b] \<Rightarrow> Inr (a, b)
      | _ \<Rightarrow>
         if 2 < length xs then Inl (ValueError ''too many values to unpack (expected 2)'')
         else Inl (ValueError (''not enough values to unpack (expected 2, got ''
                               @ digits_of (int (length xs)) @ '')'')))"
| "encode_tuning_example (Example_dict d) input_key output_key =
     (case map_of d input_key of
        None \<Rightarrow> Inl (KeyError (VStr input_key))
      | Some a \<Rightarrow>
         (case map_of d output_key of
            None \<Rightarrow> Inl (KeyError (VStr output_key))
          | Some b \<Rightarrow> Inr (a, b)))"

definition convert_iterable ::
  "TuningExampleOptions list \<Rightarrow> string \<Rightarrow> string \<Rightarrow> error + Dataset" where
  "convert_iterable data input_key output_key =
     mapE (\<lambda>example. encode_tuning_example example input_key output_key) data"

fun encode_tuning_data :: "TuningDataOptions \<Rightarrow> string \<Rightarrow> string \<Rightarrow> error + Dataset" where
  "encode_tuning_data (Data_dataset d) input_key output_key = Inr d"
| "encode_tuning_data (Data_mapping data) input_key output_key =
     convert_dict data input_key output_key"
| "encode_tuning_data (Data_iterable data) input_key output_key =
     convert_iterable data input_key output_key"

section \<open>Properties of the enum coercion\<close>

lemma dict_literal_rev: "dict_literal es = map_of (rev es)"
proof -
  have "foldl (\<lambda>m (k, v). m(k \<mapsto> v)) m0 es = m0 ++ map_of (rev es)" for m0 :: "'a \<rightharpoonup> 'b"
    by (induction es arbitrary: m0) auto
  then show ?thesis by (simp add: dict_literal_def)
qed

lemma TUNED_MODEL_STATES_KStr:
  "TUNED_MODEL_STATES (KStr s) =
     (if s = ''unspecified'' \<or> s = ''state_unspecified'' then Some TunedModelState_STATE_UNSPECIFIED
      else if s = ''failed'' then Some TunedModelState_FAILED
      else if s = ''creating'' then Some TunedModelState_CREATING
      else if s = ''active'' then Some TunedModelState_ACTIVE
      else None)"
  by (simp add: TUNED_MODEL_STATES_def dict_literal_rev TUNED_MODEL_STATES_entries_def)

lemma TUNED_MODEL_STATES_KInt:
  "TUNED_MODEL_STATES (KInt i) =
     (if i = 0 then Some TunedModelState_STATE_UNSPECIFIED
      else if i = 3 then Some TunedModelState_FAILED
      else if i = 1 then Some TunedModelState_CREATING
      else if i = 2 then Some TunedModelState_ACTIVE
      else None)"
  by (simp add: TUNED_MODEL_STATES_def dict_literal_rev TUNED_MODEL_STATES_entries_def)

lemma TUNED_MODEL_STATES_KNone:
  "TUNED_MODEL_STATES KNone = Some TunedModelState_STATE_UNSPECIFIED"
  by (simp add: TUNED_MODEL_STATES_def dict_literal_rev TUNED_MODEL_STATES_entries_def)

lemma STATE_KStr:
  "STATE (KStr s) =
     (if s = ''failed'' \<or> s = ''state_failed'' then Some State_STATE_FAILED
      else if s = ''active'' \<or> s = ''state_active'' then Some State_STATE_ACTIVE
      else if s = ''pending'' \<or> s = ''pending_processing'' then Some State_STATE_PENDING_PROCESSING
      else if s = ''unspecified'' \<or> s = ''state_unspecifed'' then Some State_STATE_UNSPECIFIED
      else None)"
  by (simp add: STATE_def dict_literal_rev STATE_entries_def)

lemma STATE_KInt:
  "STATE (KInt i) =
     (if i = 10 then Some State_STATE_FAILED
      else if i = 2 then Some State_STATE_ACTIVE
      else if i = 1 then Some State_STATE_PENDING_PROCESSING
      else if i = 0 then Some State_STATE_UNSPECIFIED
      else None)"
  by (simp add: STATE_def dict_literal_rev STATE_entries_def)

lemma STATE_KNone: "STATE KNone = None"
  by (simp add: STATE_def dict_literal_rev STATE_entries_def)

text \<open>
  Claim C7 at the wire value of INCLUDES. The table \<^verbatim>\<open>_OPERATOR\<close> writes the integer key 6
  twice, first for INCLUDES and then for EXCLUDES, and the later entry wins: coercing the
  wire value 6 of INCLUDES returns EXCLUDES, so the table does not invert the wire
  encoding.
\<close>

theorem to_operator_wire_value_of_INCLUDES:
  "to_operator (OInt (Operator_int Operator_INCLUDES)) = Inr Operator_EXCLUDES
   \<and> to_operator (OInt 6) \<noteq> Inr Operator_INCLUDES"
  by (simp add: to_operator_def dict_getitem_def OPERATOR_def dict_literal_rev OPERATOR_entries_def)

section \<open>Properties of name validation, URL normalization and time decoding\<close>

subsection \<open>The names that \<open>valid_tuned_model_name\<close> accepts\<close>

lemma re_match_None_iff: "re_match r s = None \<longleftrightarrow> rests r s = {}"
  by (simp add: re_match_def rests_def split: list.splits)

lemma rests_Cls: "rests (Cls p) s = (case s of [] \<Rightarrow> {} | c # cs \<Rightarrow> if p c then {cs} else {})"
  by (simp add: rests_def split: list.splits)

lemma snd_image_groups: "snd ` (\<lambda>(c, r). (g c r, r)) ` S = snd ` S"
  by (simp add: image_image case_prod_beta)

lemma rests_Seq: "rests (Seq a b) s = (\<Union>r \<in> rests a s. rests b r)"
proof -
  have "rests (Seq a b) s = (\<Union>x \<in> set (rmatch a s). snd ` set (rmatch b (snd x)))"
    by (simp add: rests_def image_UN case_prod_beta image_image)
  also have "\<dots> = (\<Union>r \<in> rests a s. rests b r)"
    by (simp add: rests_def)
  finally show ?thesis .
qed

lemma rests_Opt: "rests (Opt a) s = rests a s \<union> {s}"
  by (simp add: rests_def)

lemma rests_Grp: "rests (Grp a) s = rests a s"
  by (simp add: rests_def snd_image_groups)

lemma rests_Eol: "rests Eol s = (if s = [] \<or> s = [CHR 0x0A] then {s} else {})"
  by (simp add: rests_def)

lemma rests_Rep_Cls_Suc:
  "rests (Rep 0 (Suc n) (Cls p)) s =
     (case s of [] \<Rightarrow> {[]} | c # cs \<Rightarrow> if p c then rests (Rep 0 n (Cls p)) cs \<union> {c # cs} else {c # cs})"
  by (force simp: rests_def split: list.splits)

lemma rests_Rep_Cls:
  "r \<in> rests (Rep 0 n (Cls p)) s \<longleftrightarrow>
     (\<exists>k\<le>n. k \<le> length s \<and> (\<forall>x\<in>set (take k s). p x) \<and> r = drop k s)"
proof (induction n arbitrary: s)
  case 0
  show ?case by (auto simp: rests_def)
next
  case (Suc n)
  show ?case
  proof (cases s)
    case Nil
    then show ?thesis by (auto simp: rests_Rep_Cls_Suc)
  next
    case (Cons c cs)
    show ?thesis
    proof
      assume "r \<in> rests (Rep 0 (Suc n) (Cls p)) s"
      then consider "p c" "r \<in> rests (Rep 0 n (Cls p)) cs" | "r = c # cs"
        by (auto simp: rests_Rep_Cls_Suc Cons split: if_splits)
      then show "\<exists>k\<le>Suc n. k \<le> length s \<and> (\<forall>x\<in>set (take k s). p x) \<and> r = drop k s"
      proof cases
        case 1
        then obtain j where "j \<le> n" "j \<le> length cs" "\<forall>x\<in>set (take j cs). p x" "r = drop j cs"
          using Suc.IH by blast
        with 1 Cons show ?thesis by (intro exI [of _ "Suc j"]) simp
      next
        case 2
        with Cons show ?thesis by (intro exI [of _ 0]) simp
      qed
    next
      assume "\<exists>k\<le>Suc n. k \<le> length s \<and> (\<forall>x\<in>set (take k s). p x) \<and> r = drop k s"
      then obtain k where k: "k \<le> Suc n" "k \<le> length s" "\<forall>x\<in>set (take k s). p x" "r = drop k s"
        by blast
      show "r \<in> rests (Rep 0 (Suc n) (Cls p)) s"
      proof (cases k)
        case 0
        with k Cons show ?thesis by (simp add: rests_Rep_Cls_Suc)
      next
        case (Suc j)
        with k Cons have "p c" "j \<le> n" "j \<le> length cs" "\<forall>x\<in>set (take j cs). p x" "r = drop j cs"
          by simp_all
        then have "r \<in> rests (Rep 0 n (Cls p)) cs" using Suc.IH by blast
        with \<open>p c\<close> Cons show ?thesis by (simp add: rests_Rep_Cls_Suc)
      qed
    qed
  qed
qed

lemma rests_Cls_drop:
  "r \<in> rests (Cls p) (drop k s) \<longleftrightarrow> k < length s \<and> p (s ! k) \<and> r = drop (Suc k) s"
proof (cases "k < length s")
  case True
  then have "drop k s = s ! k # drop (Suc k) s" by (simp add: Cons_nth_drop_Suc)
  with True show ?thesis by (auto simp: rests_Cls)
next
  case False
  then show ?thesis by (simp add: rests_Cls)
qed

lemma rests_name_inner:
  "r \<in> rests (Seq (Rep 0 61 (Cls (\<lambda>c. lower_alnum c \<or> c = CHR ''-''))) (Cls lower_alnum)) body \<longleftrightarrow>
     (\<exists>k\<le>61. k < length body \<and> (\<forall>x\<in>set (take k body). lower_alnum x \<or> x = CHR ''-'')
        \<and> lower_alnum (body ! k) \<and> r = drop (Suc k) body)"
  (is "r \<in> rests (Seq (Rep 0 61 (Cls ?nc)) _) body \<longleftrightarrow> _")
proof -
  have "r \<in> rests (Seq (Rep 0 61 (Cls ?nc)) (Cls lower_alnum)) body \<longleftrightarrow>
      (\<exists>r1. r1 \<in> rests (Rep 0 61 (Cls ?nc)) body \<and> r \<in> rests (Cls lower_alnum) r1)"
    unfolding rests_Seq by blast
  also have "\<dots> \<longleftrightarrow>
      (\<exists>k\<le>61. k \<le> length body \<and> (\<forall>x\<in>set (take k body). ?nc x)
         \<and> r \<in> rests (Cls lower_alnum) (drop k body))"
    unfolding rests_Rep_Cls by blast
  also have "\<dots> \<longleftrightarrow>
      (\<exists>k\<le>61. k < length body \<and> (\<forall>x\<in>set (take k body). ?nc x)
         \<and> lower_alnum (body ! k) \<and> r = drop (Suc k) body)"
    unfolding rests_Cls_drop
  proof
    assume "\<exists>k\<le>61. k \<le> length body \<and> (\<forall>x\<in>set (take k body). ?nc x)
         \<and> k < length body \<and> lower_alnum (body ! k) \<and> r = drop (Suc k) body"
    then obtain k where "k \<le> 61" "k < length body" "\<forall>x\<in>set (take k body). ?nc x"
      "lower_alnum (body ! k)" "r = drop (Suc k) body"
      by blast
    then show "\<exists>k\<le>61. k < length body \<and> (\<forall>x\<in>set (take k body). ?nc x)
         \<and> lower_alnum (body ! k) \<and> r = drop (Suc k) body"
      by blast
  next
    assume "\<exists>k\<le>61. k < length body \<and> (\<forall>x\<in>set (take k body). ?nc x)
         \<and> lower_alnum (body ! k) \<and> r = drop (Suc k) body"
    then obtain k where k: "k \<le> 61" "k < length body" "\<forall>x\<in>set (take k body). ?nc x"
      "lower_alnum (body ! k)" "r = drop (Suc k) body"
      by blast
    from k(2) have "k \<le> length body" by simp
    with k show "\<exists>k\<le>61. k \<le> length body \<and> (\<forall>x\<in>set (take k body). ?nc x)
         \<and> k < length body \<and> lower_alnum (body ! k) \<and> r = drop (Suc k) body"
      by blast
  qed
  finally show ?thesis .
qed

lemma rests_name_tail:
  "rests (Seq (Grp (Opt (Grp inner))) Eol) body \<noteq> {} \<longleftrightarrow>
     (body = [] \<or> body = [CHR 0x0A] \<or> [] \<in> rests inner body \<or> [CHR 0x0A] \<in> rests inner body)"
proof -
  have "rests (Seq (Grp (Opt (Grp inner))) Eol) body \<noteq> {} \<longleftrightarrow>
      (\<exists>r \<in> rests inner body \<union> {body}. rests Eol r \<noteq> {})"
    unfolding rests_Seq by (simp add: rests_Grp rests_Opt)
  also have "\<dots> \<longleftrightarrow> (\<exists>r \<in> rests inner body \<union> {body}. r = [] \<or> r = [CHR 0x0A])"
    by (simp add: rests_Eol)
  also have "\<dots> \<longleftrightarrow>
     (body = [] \<or> body = [CHR 0x0A] \<or> [] \<in> rests inner body \<or> [CHR 0x0A] \<in> rests inner body)"
    by blast
  finally show ?thesis .
qed

lemma valid_tuned_model_name_head:
  "valid_tuned_model_name name \<longleftrightarrow>
     (\<exists>c body. name = c # body \<and> in_range CHR ''a'' CHR ''z'' c
        \<and> rests (Seq (Grp (Opt (Grp (Seq (Rep 0 61 (Cls (\<lambda>c. lower_alnum c \<or> c = CHR ''-'')))
                                         (Cls lower_alnum)))))
                      Eol) body \<noteq> {})"
proof (cases name)
  case Nil
  then show ?thesis
    by (simp add: valid_tuned_model_name_def re_match_None_iff TUNED_MODEL_VALID_NAME_def
        rests_Seq [of "Cls p" for p] rests_Cls)
next
  case (Cons c body)
  then show ?thesis
    by (simp add: valid_tuned_model_name_def re_match_None_iff TUNED_MODEL_VALID_NAME_def
        rests_Seq [of "Cls p" for p] rests_Cls)
qed

text \<open>
  The names that \<open>valid_tuned_model_name\<close> accepts: a lower-case letter, then nothing, or
  up to 61 characters that are lower-case letters, digits or dashes and one more that is a
  letter or digit; and after that the end of the name, or one newline.
\<close>

lemma valid_tuned_model_name_iff:
  "valid_tuned_model_name name \<longleftrightarrow>
     (\<exists>c body. name = c # body \<and> in_range CHR ''a'' CHR ''z'' c
        \<and> (body = [] \<or> body = [CHR 0x0A]
           \<or> (\<exists>k\<le>61. k < length body
                 \<and> (\<forall>x\<in>set (take k body). lower_alnum x \<or> x = CHR ''-'')
                 \<and> lower_alnum (body ! k)
                 \<and> (drop (Suc k) body = [] \<or> drop (Suc k) body = [CHR 0x0A]))))"
  (is "_ \<longleftrightarrow> (\<exists>c body. name = c # body \<and> in_range CHR ''a'' CHR ''z'' c \<and> ?B body)")
proof
  let ?inner = "Seq (Rep 0 61 (Cls (\<lambda>c. lower_alnum c \<or> c = CHR ''-''))) (Cls lower_alnum)"
  assume "valid_tuned_model_name name"
  then obtain c body where n: "name = c # body" "in_range CHR ''a'' CHR ''z'' c"
    and t: "body = [] \<or> body = [CHR 0x0A] \<or> [] \<in> rests ?inner body \<or> [CHR 0x0A] \<in> rests ?inner body"
    unfolding valid_tuned_model_name_head rests_name_tail by blast
  from t consider "body = [] \<or> body = [CHR 0x0A]"
    | r where "r = [] \<or> r = [CHR 0x0A]" "r \<in> rests ?inner body"
    by blast
  then have "?B body"
  proof cases
    case 1
    then show ?thesis by blast
  next
    case 2
    from 2(2) obtain k where k: "k \<le> 61 \<and> k < length body
        \<and> (\<forall>x\<in>set (take k body). lower_alnum x \<or> x = CHR ''-'') \<and> lower_alnum (body ! k)"
      and r: "r = drop (Suc k) body"
      unfolding rests_name_inner by blast
    from 2(1) r have "drop (Suc k) body = [] \<or> drop (Suc k) body = [CHR 0x0A]"
      by simp
    with k show ?thesis
      by (intro disjI2 exI [of _ k]) simp
  qed
  with n show "\<exists>c body. name = c # body \<and> in_range CHR ''a'' CHR ''z'' c \<and> ?B body"
    by blast
next
  let ?inner = "Seq (Rep 0 61 (Cls (\<lambda>c. lower_alnum c \<or> c = CHR ''-''))) (Cls lower_alnum)"
  assume "\<exists>c body. name = c # body \<and> in_range CHR ''a'' CHR ''z'' c \<and> ?B body"
  then obtain c body where n: "name = c # body" "in_range CHR ''a'' CHR ''z'' c" and b: "?B body"
    by blast
  from b consider "body = [] \<or> body = [CHR 0x0A]"
    | k where "k \<le> 61" "k < length body"
      "\<forall>x\<in>set (take k body). lower_alnum x \<or> x = CHR ''-''" "lower_alnum (body ! k)"
      "drop (Suc k) body = [] \<or> drop (Suc k) body = [CHR 0x0A]"
    by blast
  then have "body = [] \<or> body = [CHR 0x0A] \<or> [] \<in> rests ?inner body \<or> [CHR 0x0A] \<in> rests ?inner body"
  proof cases
    case 1
    then show ?thesis by blast
  next
    case 2
    from 2(1-4) have "drop (Suc k) body \<in> rests ?inner body"
      unfolding rests_name_inner by blast
    with 2(5) show ?thesis by auto
  qed
  with n show "valid_tuned_model_name name"
    unfolding valid_tuned_model_name_head rests_name_tail by blast
qed

text \<open>Every name of the pattern is accepted.\<close>

lemma valid_tuned_model_name_pattern:
  assumes "in_range CHR ''a'' CHR ''z'' c" and "length middle \<le> 61"
    and "\<forall>x\<in>set middle. lower_alnum x \<or> x = CHR ''-''" and "lower_alnum final"
  shows "valid_tuned_model_name [c]" and "valid_tuned_model_name (c # middle @ [final])"
proof -
  show "valid_tuned_model_name [c]"
    using assms(1) by (simp add: valid_tuned_model_name_iff)
  have "\<exists>k\<le>61. k < length (middle @ [final])
          \<and> (\<forall>x\<in>set (take k (middle @ [final])). lower_alnum x \<or> x = CHR ''-'')
          \<and> lower_alnum ((middle @ [final]) ! k)
          \<and> (drop (Suc k) (middle @ [final]) = [] \<or> drop (Suc k) (middle @ [final]) = [CHR 0x0A])"
    using assms(2-4) by (intro exI [of _ "length middle"]) simp
  with assms(1) show "valid_tuned_model_name (c # middle @ [final])"
    unfolding valid_tuned_model_name_iff by blast
qed

text \<open>A name that starts with a digit or a dash is rejected.\<close>

lemma valid_tuned_model_name_first:
  assumes "digit c \<or> c = CHR ''-''"
  shows "\<not> valid_tuned_model_name (c # cs)"
proof -
  from assms have "\<not> in_range CHR ''a'' CHR ''z'' c"
    by (auto simp: in_range_def digit_def)
  then show ?thesis by (simp add: valid_tuned_model_name_iff)
qed

text \<open>
  A name of more than 63 characters is rejected, unless it has 64 characters and the last
  one is a newline.
\<close>

lemma valid_tuned_model_name_long:
  assumes "valid_tuned_model_name name" and "63 < length name"
  shows "length name = 64 \<and> last name = CHR 0x0A"
proof -
  from assms(1) obtain c body where n: "name = c # body"
    and b: "body = [] \<or> body = [CHR 0x0A]
           \<or> (\<exists>k\<le>61. k < length body
                 \<and> (drop (Suc k) body = [] \<or> drop (Suc k) body = [CHR 0x0A]))"
    unfolding valid_tuned_model_name_iff by blast
  from assms(2) n have l: "62 < length body" by simp
  with b obtain k where k: "k \<le> 61" "k < length body"
    "drop (Suc k) body = [] \<or> drop (Suc k) body = [CHR 0x0A]"
    by auto
  from k(3) l k(1) have d: "drop (Suc k) body = [CHR 0x0A]"
    by auto
  then have "length (drop (Suc k) body) = 1" by simp
  with k(1) l have len: "length body = 63" by simp
  from d have "last body = CHR 0x0A"
    by (metis append_take_drop_id last_appendR last.simps not_Cons_self2)
  with len n show ?thesis by (cases body) auto
qed

text \<open>
  Claim C6 at a name of 64 characters: 63 letters and a newline. The pattern ends in \<^verbatim>\<open>$\<close>,
  which also matches just before a final newline, so the 63 letters match and
  \<open>valid_tuned_model_name\<close> accepts a name that is longer than 63 characters.
\<close>

theorem valid_tuned_model_name_accepts_64_characters:
  "length (replicate 63 CHR ''a'' @ [CHR 0x0A]) = 64
   \<and> valid_tuned_model_name (replicate 63 CHR ''a'' @ [CHR 0x0A])"
  by code_simp

lemma valid_tuned_model_name_examples:
  "valid_tuned_model_name ''my-model-1''"
  "\<not> valid_tuned_model_name ''my-model-''"
  "\<not> valid_tuned_model_name ''1model''"
  "\<not> valid_tuned_model_name ''-model''"
  "\<not> valid_tuned_model_name (replicate 64 CHR ''a'')"
  by code_simp+

text \<open>
  Claim C9 at a spreadsheet URL without a document id. The call raises \<open>ValueError\<close>, and its
  message is the literal text of the source with the placeholder \<^verbatim>\<open>{data}\<close> left as it is;
  the URL is not in it.
\<close>

theorem normalize_url_incomplete_message:
  "normalize_url ''https://docs.google.com/spreadsheets/edit#gid=42''
     = Inl (ValueError ''Incomplete Google Sheets URL: {data}'')"
  by code_simp

lemma normalize_url_example:
  "normalize_url ''https://docs.google.com/spreadsheets/d/ID/edit#gid=42''
     = Inr ''https://docs.google.com/spreadsheets/d/ID/export?format=csv&gid=42''"
  by code_simp

text \<open>
  Claim C5 at the fraction \<^verbatim>\<open>.9999999\<close>. The product with a million rounds to 1000000, which
  has seven digits, so the fraction is not rescaled to six digits, and \<^verbatim>\<open>strptime\<close>, whose
  \<^verbatim>\<open>%f\<close> takes at most six digits, rejects the rewritten time: decoding this timestamp raises
  \<open>ValueError\<close>.
\<close>

theorem idecode_time_seven_digits:
  "fix_microseconds ''.9999999'' = ''.1000000''
   \<and> idecode_time [(''create_time'', VStr ''2024-01-01T00:00:00.9999999Z'')] ''create_time''
       = Inl (ValueError (''time data '' @ repr_str ''2024-01-01T00:00:00.1000000Z''
                          @ '' does not match format '' @ repr_str ''%Y-%m-%dT%H:%M:%S.%fZ''))"
  by code_simp

text \<open>The example of the claim itself: seven digits that round below a million.\<close>

lemma idecode_time_rounds_example:
  "fix_microseconds ''.1234567'' = ''.123457''"
  "idecode_time [(''create_time'', VStr ''2024-01-01T00:00:00.1234567Z'')] ''create_time''
     = Inr [(''create_time'',
             VDateTime \<lparr>year = 2024, month = 1, day = 1, hour = 0, minute = 0, second = 0,
                        microsecond = 123457, tzinfo_utc = True\<rparr>)]"
  by code_simp+

section \<open>Properties of the retriever entities\<close>

lemma bindE_simps [simp]:
  "bindE (Inl e) f = Inl e"
  "bindE (Inr x) f = f x"
  by (simp_all add: bindE_def)

lemma bindE_eq_Inr:
  "bindE m f = Inr y \<longleftrightarrow> (\<exists>x. m = Inr x \<and> f x = Inr y)"
  by (cases m) simp_all

lemma bindE_eq_Inl:
  "bindE m f = Inl e \<longleftrightarrow> m = Inl e \<or> (\<exists>x. m = Inr x \<and> f x = Inl e)"
  by (cases m) auto

lemma to_operator_no_ValueError: "to_operator x \<noteq> Inl (ValueError msg)"
  by (simp add: to_operator_def dict_getitem_def split: option.splits)

lemma create_metadata_filters_no_ValueError: "create_metadata_filters mf \<noteq> Inl (ValueError msg)"
proof (cases mf)
  case (MetadataFilter k c)
  then show ?thesis
    by (cases c) (simp add: bindE_eq_Inl to_operator_no_ValueError)
qed

lemma mapE_no_ValueError:
  assumes "\<And>x. f x \<noteq> Inl (ValueError msg)"
  shows "mapE f xs \<noteq> Inl (ValueError msg)"
  using assms by (induction xs) (auto split: sum.splits)

lemma make_filters_no_ValueError: "make_filters mfs \<noteq> Inl (ValueError msg)"
  by (cases mfs)
     (simp_all add: make_filters_def mapE_no_ValueError create_metadata_filters_no_ValueError)

lemma getattr_no_ValueError: "getattr obj a \<noteq> Inl (ValueError msg)"
  by (cases obj) (simp_all split: option.splits)

lemma query_tail_no_ValueError:
  "bindE (make_filters mfs) (\<lambda>m_f. bindE (getattr self ''name'') (\<lambda>name. Inr (mk name m_f)))
     \<noteq> Inl (ValueError msg)"
  by (simp add: bindE_eq_Inl make_filters_no_ValueError getattr_no_ValueError)

text \<open>
  Claim C3. For a count that is not zero, \<open>Corpus.query\<close> raises its \<open>ValueError\<close> exactly
  when the count is above 100, and \<open>Document.query\<close> exactly when the count is negative or
  at least 100. The check is the first thing either method does, so the error comes
  whatever the filters and the entity are, and nothing else in the part before the
  request raises a \<open>ValueError\<close>.
\<close>

theorem query_results_count_bounds:
  assumes "rc \<noteq> 0"
  shows "((\<exists>msg. Corpus_query corpus q mfs (Some rc) = Inl (ValueError msg)) \<longleftrightarrow> 100 < rc)
       \<and> ((\<exists>msg. Document_query document q' mfs' (Some rc) = Inl (ValueError msg))
            \<longleftrightarrow> (rc < 0 \<or> 100 \<le> rc))"
proof -
  have c: "(\<exists>msg. Corpus_query corpus q mfs (Some rc) = Inl (ValueError msg)) \<longleftrightarrow> 100 < rc"
    using assms query_tail_no_ValueError [of mfs corpus "\<lambda>name m_f. QueryCorpusRequest name q m_f (Some rc)"]
    by (auto simp: Corpus_query_def)
  have d: "(\<exists>msg. Document_query document q' mfs' (Some rc) = Inl (ValueError msg))
            \<longleftrightarrow> (rc < 0 \<or> 100 \<le> rc)"
    using assms query_tail_no_ValueError [of mfs' document "\<lambda>name m_f. QueryDocumentRequest name q' m_f (Some rc)"]
    by (auto simp: Document_query_def)
  from c d show ?thesis by blast
qed

theorem query_results_count_bounds_witness:
  "(100::int) \<noteq> 0
   \<and> \<not> (\<exists>msg. Corpus_query (VObj ''Corpus'' [(''name'', VStr ''corpora/c1'')]) ''q'' None (Some 100)
              = Inl (ValueError msg))
   \<and> (\<exists>msg. Document_query (VObj ''Document'' [(''name'', VStr ''corpora/c1/documents/d1'')])
              ''q'' None (Some 100) = Inl (ValueError msg))"
  using query_results_count_bounds [of 100 "VObj ''Corpus'' [(''name'', VStr ''corpora/c1'')]"
      "''q''" None "VObj ''Document'' [(''name'', VStr ''corpora/c1/documents/d1'')]" "''q''" None]
  by simp

lemma query_examples:
  "Corpus_query (VObj ''Corpus'' [(''name'', VStr ''corpora/c1'')]) ''q'' None (Some 100)
     = Inr (QueryCorpusRequest (VStr ''corpora/c1'') ''q'' [] (Some 100))"
  "Corpus_query (VObj ''Corpus'' [(''name'', VStr ''corpora/c1'')]) ''q'' None (Some (- 1))
     = Inr (QueryCorpusRequest (VStr ''corpora/c1'') ''q'' [] (Some (- 1)))"
  "Corpus_query (VObj ''Corpus'' [(''name'', VStr ''corpora/c1'')]) ''q'' None (Some 101)
     = Inl (ValueError ''Number of results returned must be between 1 and 100.'')"
  "Document_query (VObj ''Document'' [(''name'', VStr ''d1'')]) ''q'' None (Some 99)
     = Inr (QueryDocumentRequest (VStr ''d1'') ''q'' [] (Some 99))"
  "Document_query (VObj ''Document'' [(''name'', VStr ''d1'')]) ''q'' None (Some (- 1))
     = Inl (ValueError ''Number of results returned must be between 1 and 100.'')"
  by (simp_all add: Corpus_query_def Document_query_def make_filters_def)

lemma update_entity_rejects:
  assumes "\<exists>p \<in> set (map fst (flatten_update_paths updates)). p \<noteq> allowed"
  shows "\<exists>msg. update_entity allowed message to_dict make_request self updates
           = (Inl (ValueError msg), self)"
proof -
  from assms obtain item where
    "find (\<lambda>item. item \<noteq> allowed) (map fst (flatten_update_paths updates)) = Some item"
    by (cases "find (\<lambda>item. item \<noteq> allowed) (map fst (flatten_update_paths updates))")
       (auto simp: find_None_iff)
  then show ?thesis by (simp add: update_entity_def)
qed

text \<open>
  Claim C1. When the flattened updates hold a path other than the one that may be updated,
  \<open>update\<close> raises \<open>ValueError\<close> and the entity after the call is the entity before it: no
  attribute has been assigned. This holds for \<open>Corpus\<close> and \<open>Document\<close> with the path
  \<open>display_name\<close> and for \<open>Chunk\<close> with the path \<open>data.string_value\<close>.
\<close>

theorem update_rejects_disallowed_path:
  "((\<exists>p \<in> set (map fst (flatten_update_paths updates)). p \<noteq> ''display_name'') \<longrightarrow>
      (\<exists>msg. Corpus_update self updates = (Inl (ValueError msg), self))
      \<and> (\<exists>msg. Document_update self updates = (Inl (ValueError msg), self)))
   \<and> ((\<exists>p \<in> set (map fst (flatten_update_paths updates)). p \<noteq> ''data.string_value'') \<longrightarrow>
      (\<exists>msg. Chunk_update self updates = (Inl (ValueError msg), self)))"
  unfolding Corpus_update_def Document_update_def Chunk_update_def
  using update_entity_rejects by blast

theorem update_rejects_disallowed_path_witness:
  "(\<exists>p \<in> set (map fst (flatten_update_paths [(''display_name'', VStr ''x''), (''bogus'', VStr ''y'')])).
       p \<noteq> ''display_name'')
   \<and> (\<exists>msg. Document_update
               (VObj ''Document'' [(''name'', VStr ''corpora/c1/documents/d1''),
                                   (''display_name'', VStr ''old''), (''custom_metadata'', VList [])])
               [(''display_name'', VStr ''x''), (''bogus'', VStr ''y'')]
             = (Inl (ValueError msg),
                VObj ''Document'' [(''name'', VStr ''corpora/c1/documents/d1''),
                                   (''display_name'', VStr ''old''), (''custom_metadata'', VList [])]))"
proof -
  have h: "\<exists>p \<in> set (map fst (flatten_update_paths [(''display_name'', VStr ''x''), (''bogus'', VStr ''y'')])).
       p \<noteq> ''display_name''"
    by (simp add: flatten_update_paths_def)
  show ?thesis
    using h update_rejects_disallowed_path
      [of "[(''display_name'', VStr ''x''), (''bogus'', VStr ''y'')]"
          "VObj ''Document'' [(''name'', VStr ''corpora/c1/documents/d1''),
                              (''display_name'', VStr ''old''), (''custom_metadata'', VList [])]"]
    by blast
qed

lemma update_examples:
  "Document_update
     (VObj ''Document'' [(''name'', VStr ''d1''), (''display_name'', VStr ''old''),
                         (''custom_metadata'', VList [])])
     [(''display_name'', VStr ''x'')]
   = (Inr (UpdateDocumentRequest
             (VDict [(''name'', VStr ''d1''), (''display_name'', VStr ''x''),
                     (''custom_metadata'', VList [])])
             [''display_name'']),
      VObj ''Document'' [(''name'', VStr ''d1''), (''display_name'', VStr ''x''),
                         (''custom_metadata'', VList [])])"
  "Chunk_update
     (VObj ''Chunk'' [(''name'', VStr ''c1''),
                      (''data'', VObj ''ChunkData'' [(''string_value'', VStr ''old'')]),
                      (''custom_metadata'', VList []), (''state'', VState State_STATE_ACTIVE)])
     [(''data'', VDict [(''string_value'', VStr ''hi'')])]
   = (Inr (UpdateChunkRequest
             (VDict [(''name'', VStr ''c1''), (''data'', VDict [(''string_value'', VStr ''hi'')]),
                     (''custom_metadata'', VList []), (''state'', VState State_STATE_ACTIVE)])
             [''data.string_value'']),
      VObj ''Chunk'' [(''name'', VStr ''c1''),
                      (''data'', VObj ''ChunkData'' [(''string_value'', VStr ''hi'')]),
                      (''custom_metadata'', VList []), (''state'', VState State_STATE_ACTIVE)])"
  by code_simp+

lemma Chunk_init_without_data:
  assumes "Chunk_init name data custom_metadata state create_time update_time = Inr chunk"
    and "\<forall>s. data \<noteq> VStr s" and "\<forall>d. data \<noteq> VDict d"
  shows "\<exists>cms st ct ut.
     chunk = VObj ''Chunk'' [(''name'', name), (''custom_metadata'', cms), (''state'', st),
                             (''create_time'', ct), (''update_time'', ut)]"
proof -
  have d: "(case data of VStr s \<Rightarrow> f s | VDict d \<Rightarrow> g d | _ \<Rightarrow> h) = h" for f g and h :: "error + pyval"
    using assms(2,3) by (cases data) simp_all
  from assms(1) show ?thesis
    unfolding Chunk_init_def by (auto simp: d bindE_eq_Inr)
qed

text \<open>
  Claim C10. When the \<open>data\<close> argument is neither a string nor a dictionary, the chunk
  that the constructor returns has no attribute \<open>data\<close>: reading it raises
  \<open>AttributeError\<close>, and so do \<open>to_dict\<close> and the update of the path \<open>data.string_value\<close>.
\<close>

theorem Chunk_init_other_data_unassigned:
  assumes "Chunk_init name data custom_metadata state create_time update_time = Inr chunk"
    and "\<forall>s. data \<noteq> VStr s" and "\<forall>d. data \<noteq> VDict d"
  shows "getattr chunk ''data'' = Inl AttributeError
       \<and> Chunk_to_dict chunk = Inl AttributeError
       \<and> apply_update chunk ''data.string_value'' v = Inl AttributeError"
proof -
  from Chunk_init_without_data [OF assms] obtain cms st ct ut where
    c: "chunk = VObj ''Chunk'' [(''name'', name), (''custom_metadata'', cms), (''state'', st),
                                (''create_time'', ct), (''update_time'', ut)]"
    by blast
  have 1: "getattr chunk ''data'' = Inl AttributeError" by (simp add: c)
  have 2: "Chunk_to_dict chunk = Inl AttributeError" by (simp add: c Chunk_to_dict_def)
  have s: "str_split CHR ''.'' ''data.string_value'' = [''data'', ''string_value'']" by simp
  have 3: "apply_update chunk ''data.string_value'' v = Inl AttributeError"
    unfolding apply_update_def s by (simp add: c)
  from 1 2 3 show ?thesis by blast
qed

theorem Chunk_init_other_data_unassigned_witness:
  "Chunk_init (VStr ''c1'') (VObj ''ChunkData'' [(''string_value'', VStr ''text'')]) VNone
       (OEnum State_STATE_ACTIVE) VNone VNone
     = Inr (VObj ''Chunk'' [(''name'', VStr ''c1''), (''custom_metadata'', VList []),
                            (''state'', VState State_STATE_ACTIVE), (''create_time'', VNone),
                            (''update_time'', VNone)])
   \<and> Chunk_to_dict (VObj ''Chunk'' [(''name'', VStr ''c1''), (''custom_metadata'', VList []),
                            (''state'', VState State_STATE_ACTIVE), (''create_time'', VNone),
                            (''update_time'', VNone)]) = Inl AttributeError
   \<and> apply_update (VObj ''Chunk'' [(''name'', VStr ''c1''), (''custom_metadata'', VList []),
                            (''state'', VState State_STATE_ACTIVE), (''create_time'', VNone),
                            (''update_time'', VNone)]) ''data.string_value'' (VStr ''new'')
       = Inl AttributeError"
proof -
  have i: "Chunk_init (VStr ''c1'') (VObj ''ChunkData'' [(''string_value'', VStr ''text'')]) VNone
       (OEnum State_STATE_ACTIVE) VNone VNone
     = Inr (VObj ''Chunk'' [(''name'', VStr ''c1''), (''custom_metadata'', VList []),
                            (''state'', VState State_STATE_ACTIVE), (''create_time'', VNone),
                            (''update_time'', VNone)])"
    by code_simp
  show ?thesis
    using i Chunk_init_other_data_unassigned [OF i, of "VStr ''new''"] by simp
qed

lemma Chunk_init_examples:
  "Chunk_init (VStr ''c1'') (VStr ''text'') VNone (OInt 2) VNone VNone
     = Inr (VObj ''Chunk'' [(''name'', VStr ''c1''),
                            (''data'', VObj ''ChunkData'' [(''string_value'', VStr ''text'')]),
                            (''custom_metadata'', VList []),
                            (''state'', VState State_STATE_ACTIVE), (''create_time'', VNone),
                            (''update_time'', VNone)])"
  "Chunk_init (VStr ''c1'') (VDict [(''string_value'', VStr ''text'')]) VNone (OInt 2) VNone VNone
     = Inr (VObj ''Chunk'' [(''name'', VStr ''c1''),
                            (''data'', VObj ''ChunkData'' [(''string_value'', VStr ''text'')]),
                            (''custom_metadata'', VList []),
                            (''state'', VState State_STATE_ACTIVE), (''create_time'', VNone),
                            (''update_time'', VNone)])"
  by code_simp+

section \<open>Properties of the tuned-model decoder\<close>

lemma map_of_idecode_time_other:
  assumes "idecode_time parent name = Inr parent'" and "k \<noteq> name"
  shows "map_of parent' k = map_of parent k"
proof (cases "map_of parent name")
  case None
  with assms show ?thesis by (simp add: idecode_time_def)
next
  case (Some v)
  show ?thesis
  proof (cases v)
    case VNone
    with Some assms show ?thesis by (auto simp: idecode_time_def delete_conv')
  next
    case (VStr time)
    with Some assms show ?thesis
      by (cases "decode_time_string time") (auto simp: idecode_time_def update_conv' delete_conv')
  qed (use Some assms in \<open>simp_all add: idecode_time_def\<close>)
qed

lemma dict_get_idecode_time_other:
  assumes "idecode_time parent name = Inr parent'" and "k \<noteq> name"
  shows "dict_get parent' k = dict_get parent k"
  by (simp add: dict_get_def map_of_idecode_time_other [OF assms])

lemma dict_get_update: "dict_get (AList.update k v d) k' = (if k' = k then v else dict_get d k')"
  by (simp add: dict_get_def update_conv')

lemma dict_get_delete: "dict_get (AList.delete k d) k' = (if k' = k then VNone else dict_get d k')"
  by (simp add: dict_get_def delete_conv')

lemma reconcile_source_base_model:
  assumes "reconcile_source d = Inr d'" and "dict_get d ''base_model'' \<noteq> VNone"
  shows "dict_get d' ''base_model'' = dict_get d ''base_model''"
    and "dict_get d' ''source_model'' = dict_get d ''base_model''"
  using assms by (auto simp: reconcile_source_def Let_def dict_get_update)

lemma reconcile_source_tuned_model_source:
  assumes "reconcile_source d = Inr d'" and "dict_get d ''base_model'' = VNone"
    and "dict_get d ''tuned_model_source'' \<noteq> VNone"
  shows "py_getitem (dict_get d ''tuned_model_source'') ''base_model'' = Inr (dict_get d' ''base_model'')"
    and "py_getitem (dict_get d ''tuned_model_source'') ''tuned_model'' = Inr (dict_get d' ''source_model'')"
  using assms
  by (auto simp: reconcile_source_def Let_def dict_get_update dict_get_delete bindE_eq_Inr)

lemma reconcile_source_neither:
  assumes "reconcile_source d = Inr d'" and "dict_get d ''base_model'' = VNone"
    and "dict_get d ''tuned_model_source'' = VNone"
  shows "dict_get d' ''base_model'' = VNone"
    and "dict_get d' ''source_model'' = dict_get d ''source_model''"
  using assms by (auto simp: reconcile_source_def Let_def dict_get_delete)

lemma getattr_TunedModel:
  assumes "dataclass_init ''TunedModel'' TunedModel_defaults kwargs = Inr tm"
  shows "getattr tm ''base_model'' = Inr (dict_get kwargs ''base_model'')"
    and "getattr tm ''source_model'' = Inr (dict_get kwargs ''source_model'')"
proof -
  from assms have tm: "tm = VObj ''TunedModel''
      (map (\<lambda>(f, d). (f, case map_of kwargs f of None \<Rightarrow> d | Some v \<Rightarrow> v)) TunedModel_defaults)"
    by (simp add: dataclass_init_def split: if_splits)
  show "getattr tm ''base_model'' = Inr (dict_get kwargs ''base_model'')"
    unfolding tm by (simp add: TunedModel_defaults_def dict_get_def)
  show "getattr tm ''source_model'' = Inr (dict_get kwargs ''source_model'')"
    unfolding tm by (simp add: TunedModel_defaults_def dict_get_def)
qed

text \<open>
  What \<open>decode_tuned_model\<close> does after the reconciliation leaves the two canonical fields
  as they are: the object has the values that \<open>reconcile_source\<close> has put into the record.
\<close>

lemma decode_tuned_model_fields:
  assumes "decode_tuned_model raw = Inr tm"
  obtains state d where
    "reconcile_source (AList.update ''state'' (VTunedModelState state) (AList.delete ''state'' raw)) = Inr d"
    "getattr tm ''base_model'' = Inr (dict_get d ''base_model'')"
    "getattr tm ''source_model'' = Inr (dict_get d ''source_model'')"
proof -
  from assms obtain state d d1 d2 d3 where
    r: "reconcile_source (AList.update ''state'' (VTunedModelState state) (AList.delete ''state'' raw)) = Inr d"
    and t1: "idecode_time d ''create_time'' = Inr d1"
    and t2: "idecode_time d1 ''update_time'' = Inr d2"
    and k: "decode_task_field d2 = Inr d3"
    and i: "dataclass_init ''TunedModel'' TunedModel_defaults d3 = Inr tm"
    by (auto simp: decode_tuned_model_def bindE_eq_Inr)
  have d3: "dict_get d3 f = dict_get d2 f" if "f \<noteq> ''tuning_task''" for f
    using k that
    by (auto simp: decode_task_field_def Let_def dict_get_update dict_get_delete bindE_eq_Inr
        split: if_splits)
  have b: "dict_get d3 ''base_model'' = dict_get d ''base_model''"
    by (simp add: d3 dict_get_idecode_time_other [OF t2] dict_get_idecode_time_other [OF t1])
  have s: "dict_get d3 ''source_model'' = dict_get d ''source_model''"
    by (simp add: d3 dict_get_idecode_time_other [OF t2] dict_get_idecode_time_other [OF t1])
  from r getattr_TunedModel [OF i] b s that show ?thesis by simp
qed

text \<open>
  Claim C4, for a record that decodes. A \<open>base_model\<close> that is not \<open>None\<close> is the value of
  both canonical fields. Otherwise, with a \<open>tuned_model_source\<close> that is not \<open>None\<close>, the
  fields are its entries \<open>base_model\<close> and \<open>tuned_model\<close>. With neither, \<open>base_model\<close> is
  \<open>None\<close> and \<open>source_model\<close> is left as the record has it, which is \<open>None\<close> when the record
  has no such key.
\<close>

theorem decode_tuned_model_reconciles:
  assumes "decode_tuned_model raw = Inr tm"
  shows "(dict_get raw ''base_model'' \<noteq> VNone \<longrightarrow>
            getattr tm ''base_model'' = Inr (dict_get raw ''base_model'')
            \<and> getattr tm ''source_model'' = Inr (dict_get raw ''base_model''))
       \<and> (dict_get raw ''base_model'' = VNone \<and> dict_get raw ''tuned_model_source'' \<noteq> VNone \<longrightarrow>
            (\<exists>b t. py_getitem (dict_get raw ''tuned_model_source'') ''base_model'' = Inr b
                 \<and> py_getitem (dict_get raw ''tuned_model_source'') ''tuned_model'' = Inr t
                 \<and> getattr tm ''base_model'' = Inr b
                 \<and> getattr tm ''source_model'' = Inr t))
       \<and> (dict_get raw ''base_model'' = VNone \<and> dict_get raw ''tuned_model_source'' = VNone \<longrightarrow>
            getattr tm ''base_model'' = Inr VNone
            \<and> getattr tm ''source_model'' = Inr (dict_get raw ''source_model''))"
proof -
  from decode_tuned_model_fields [OF assms] obtain state d where
    r: "reconcile_source (AList.update ''state'' (VTunedModelState state) (AList.delete ''state'' raw)) = Inr d"
    and b: "getattr tm ''base_model'' = Inr (dict_get d ''base_model'')"
    and s: "getattr tm ''source_model'' = Inr (dict_get d ''source_model'')"
    by blast
  let ?d0 = "AList.update ''state'' (VTunedModelState state) (AList.delete ''state'' raw)"
  have g: "dict_get ?d0 ''base_model'' = dict_get raw ''base_model''"
    "dict_get ?d0 ''tuned_model_source'' = dict_get raw ''tuned_model_source''"
    "dict_get ?d0 ''source_model'' = dict_get raw ''source_model''"
    by (simp_all add: dict_get_update dict_get_delete)
  have 1: "dict_get raw ''base_model'' \<noteq> VNone \<longrightarrow>
            getattr tm ''base_model'' = Inr (dict_get raw ''base_model'')
            \<and> getattr tm ''source_model'' = Inr (dict_get raw ''base_model'')"
    using reconcile_source_base_model [OF r] b s g by simp
  have 2: "dict_get raw ''base_model'' = VNone \<and> dict_get raw ''tuned_model_source'' \<noteq> VNone \<longrightarrow>
            (\<exists>b t. py_getitem (dict_get raw ''tuned_model_source'') ''base_model'' = Inr b
                 \<and> py_getitem (dict_get raw ''tuned_model_source'') ''tuned_model'' = Inr t
                 \<and> getattr tm ''base_model'' = Inr b
                 \<and> getattr tm ''source_model'' = Inr t)"
    using reconcile_source_tuned_model_source [OF r] b s g by simp
  have 3: "dict_get raw ''base_model'' = VNone \<and> dict_get raw ''tuned_model_source'' = VNone \<longrightarrow>
            getattr tm ''base_model'' = Inr VNone
            \<and> getattr tm ''source_model'' = Inr (dict_get raw ''source_model'')"
    using reconcile_source_neither [OF r] b s g by simp
  from 1 2 3 show ?thesis by blast
qed

theorem decode_tuned_model_reconciles_witness:
  "(\<exists>tm. decode_tuned_model
            [(''name'', VStr ''tunedModels/t2''),
             (''tuned_model_source'', VDict [(''base_model'', VStr ''models/b''),
                                             (''tuned_model'', VStr ''tunedModels/t'')]),
             (''state'', VInt 2)] = Inr tm
         \<and> getattr tm ''base_model'' = Inr (VStr ''models/b'')
         \<and> getattr tm ''source_model'' = Inr (VStr ''tunedModels/t''))"
proof -
  let ?raw = "[(''name'', VStr ''tunedModels/t2''),
             (''tuned_model_source'', VDict [(''base_model'', VStr ''models/b''),
                                             (''tuned_model'', VStr ''tunedModels/t'')]),
             (''state'', VInt 2)]"
  let ?tm = "VObj ''TunedModel''
       [(''name'', VStr ''tunedModels/t2''), (''source_model'', VStr ''tunedModels/t''),
        (''base_model'', VStr ''models/b''), (''display_name'', VStr []),
        (''description'', VStr []), (''temperature'', VNone),
        (''top_p'', VNone), (''top_k'', VNone),
        (''state'', VTunedModelState TunedModelState_ACTIVE),
        (''create_time'', VNone), (''update_time'', VNone),
        (''tuning_task'', VNone)]"
  have i: "decode_tuned_model ?raw = Inr ?tm"
    by code_simp
  from decode_tuned_model_reconciles [OF i]
  have "getattr ?tm ''base_model'' = Inr (VStr ''models/b'')
      \<and> getattr ?tm ''source_model'' = Inr (VStr ''tunedModels/t'')"
    by (simp add: dict_get_def)
  with i show ?thesis by blast
qed

lemma decode_tuned_model_examples:
  "decode_tuned_model [(''base_model'', VStr ''models/b'')]
     = Inr (VObj ''TunedModel''
       [(''name'', VNone), (''source_model'', VStr ''models/b''),
        (''base_model'', VStr ''models/b''), (''display_name'', VStr []),
        (''description'', VStr []), (''temperature'', VNone),
        (''top_p'', VNone), (''top_k'', VNone),
        (''state'', VTunedModelState TunedModelState_STATE_UNSPECIFIED),
        (''create_time'', VNone), (''update_time'', VNone),
        (''tuning_task'', VNone)])"
  "decode_tuned_model []
     = Inr (VObj ''TunedModel''
       [(''name'', VNone), (''source_model'', VNone),
        (''base_model'', VNone), (''display_name'', VStr []),
        (''description'', VStr []), (''temperature'', VNone),
        (''top_p'', VNone), (''top_k'', VNone),
        (''state'', VTunedModelState TunedModelState_STATE_UNSPECIFIED),
        (''create_time'', VNone), (''update_time'', VNone),
        (''tuning_task'', VNone)])"
  "decode_tuned_model [(''state'', VStr ''bogus'')] = Inl (KeyError (VStr ''bogus''))"
  by code_simp+

subsection \<open>The state of a decoded tuned model\<close>

lemma map_of_reconcile_source_other:
  assumes "reconcile_source d = Inr d'"
    and "k \<noteq> ''base_model''" and "k \<noteq> ''tuned_model_source''" and "k \<noteq> ''source_model''"
  shows "map_of d' k = map_of d k"
  using assms
  by (auto simp: reconcile_source_def Let_def update_conv' delete_conv' bindE_eq_Inr split: if_splits)

lemma map_of_decode_task_field_other:
  assumes "decode_task_field d = Inr d'" and "k \<noteq> ''tuning_task''"
  shows "map_of d' k = map_of d k"
  using assms
  by (auto simp: decode_task_field_def Let_def update_conv' delete_conv' bindE_eq_Inr split: if_splits)

text \<open>
  The state of a decoded tuned model is the coerced state of the raw record: the record
  decodes only if the coercion returns.
\<close>

lemma decode_tuned_model_state:
  assumes "decode_tuned_model raw = Inr tm"
  shows "\<exists>st. coerce_state (dict_get raw ''state'') = Inr st
            \<and> getattr tm ''state'' = Inr (VTunedModelState st)"
proof -
  from assms obtain st d d1 d2 d3 where
    c: "coerce_state (dict_get raw ''state'') = Inr st"
    and r: "reconcile_source (AList.update ''state'' (VTunedModelState st) (AList.delete ''state'' raw)) = Inr d"
    and t1: "idecode_time d ''create_time'' = Inr d1"
    and t2: "idecode_time d1 ''update_time'' = Inr d2"
    and k: "decode_task_field d2 = Inr d3"
    and i: "dataclass_init ''TunedModel'' TunedModel_defaults d3 = Inr tm"
    by (auto simp: decode_tuned_model_def bindE_eq_Inr)
  have "map_of d ''state'' = Some (VTunedModelState st)"
    by (simp add: map_of_reconcile_source_other [OF r] update_conv')
  then have "map_of d3 ''state'' = Some (VTunedModelState st)"
    by (simp add: map_of_decode_task_field_other [OF k] map_of_idecode_time_other [OF t2]
        map_of_idecode_time_other [OF t1])
  moreover from i have "tm = VObj ''TunedModel''
      (map (\<lambda>(f, d). (f, case map_of d3 f of None \<Rightarrow> d | Some v \<Rightarrow> v)) TunedModel_defaults)"
    by (simp add: dataclass_init_def split: if_splits)
  ultimately have "getattr tm ''state'' = Inr (VTunedModelState st)"
    by (simp add: TunedModel_defaults_def)
  with c show ?thesis by blast
qed

lemma decode_tuned_model_state_absent:
  assumes "decode_tuned_model raw = Inr tm" and "dict_get raw ''state'' = VNone"
  shows "getattr tm ''state'' = Inr (VTunedModelState TunedModelState_STATE_UNSPECIFIED)"
  using decode_tuned_model_state [OF assms(1)] assms(2)
  by (auto simp: to_tuned_model_state_def dict_getitem_def TUNED_MODEL_STATES_KNone)

text \<open>
  Claim C2, as the code has it. Both coercion functions index their table directly, so an
  input that is not a key of the table raises \<open>KeyError\<close> with that key. For
  \<open>TunedModelState\<close> the absent input \<open>None\<close> is a key and yields \<open>STATE_UNSPECIFIED\<close>; a
  string whose lower-case form is not a listed alias and an integer that is not a wire
  value raise. For \<open>Chunk.State\<close> the same holds, and \<open>None\<close> is not a key and raises too.
  A tuned model decodes through this coercion: its state is the coerced state of the raw
  record, which is \<open>STATE_UNSPECIFIED\<close> when the record has no state, and a raw state that
  is an unknown string makes the decoder raise.
\<close>

theorem enum_coercion_unknown_raises:
  "to_tuned_model_state ONone = Inr TunedModelState_STATE_UNSPECIFIED
   \<and> (lower s \<notin> {''active'', ''creating'', ''failed'', ''state_unspecified'', ''unspecified''}
        \<longrightarrow> to_tuned_model_state (OStr s) = Inl (KeyError (VStr (lower s)))
            \<and> decode_tuned_model ((''state'', VStr s) # rest) = Inl (KeyError (VStr (lower s))))
   \<and> (i \<notin> {0, 1, 2, 3} \<longrightarrow> to_tuned_model_state (OInt i) = Inl (KeyError (VInt i)))
   \<and> to_state ONone = Inl (KeyError VNone)
   \<and> (lower s \<notin> {''state_unspecifed'', ''unspecified'', ''pending_processing'', ''pending'',
                    ''state_active'', ''active'', ''state_failed'', ''failed''}
        \<longrightarrow> to_state (OStr s) = Inl (KeyError (VStr (lower s))))
   \<and> (i \<notin> {0, 1, 2, 10} \<longrightarrow> to_state (OInt i) = Inl (KeyError (VInt i)))
   \<and> (decode_tuned_model raw = Inr tm \<longrightarrow>
        (\<exists>st. coerce_state (dict_get raw ''state'') = Inr st
              \<and> getattr tm ''state'' = Inr (VTunedModelState st)))
   \<and> (decode_tuned_model raw = Inr tm \<and> dict_get raw ''state'' = VNone \<longrightarrow>
        getattr tm ''state'' = Inr (VTunedModelState TunedModelState_STATE_UNSPECIFIED))"
proof -
  have a: "to_tuned_model_state ONone = Inr TunedModelState_STATE_UNSPECIFIED"
    by (simp add: to_tuned_model_state_def dict_getitem_def TUNED_MODEL_STATES_KNone)
  have b: "lower s \<notin> {''active'', ''creating'', ''failed'', ''state_unspecified'', ''unspecified''}
        \<longrightarrow> to_tuned_model_state (OStr s) = Inl (KeyError (VStr (lower s)))"
    by (simp add: to_tuned_model_state_def dict_getitem_def TUNED_MODEL_STATES_KStr)
  have b': "to_tuned_model_state (OStr s) = Inl e
        \<longrightarrow> decode_tuned_model ((''state'', VStr s) # rest) = Inl e" for e
    by (simp add: decode_tuned_model_def dict_get_def)
  have c: "i \<notin> {0, 1, 2, 3} \<longrightarrow> to_tuned_model_state (OInt i) = Inl (KeyError (VInt i))"
    by (simp add: to_tuned_model_state_def dict_getitem_def TUNED_MODEL_STATES_KInt)
  have e: "to_state ONone = Inl (KeyError VNone)"
    by (simp add: to_state_def dict_getitem_def STATE_KNone)
  have f: "lower s \<notin> {''state_unspecifed'', ''unspecified'', ''pending_processing'', ''pending'',
                    ''state_active'', ''active'', ''state_failed'', ''failed''}
        \<longrightarrow> to_state (OStr s) = Inl (KeyError (VStr (lower s)))"
    by (simp add: to_state_def dict_getitem_def STATE_KStr)
  have g: "i \<notin> {0, 1, 2, 10} \<longrightarrow> to_state (OInt i) = Inl (KeyError (VInt i))"
    by (simp add: to_state_def dict_getitem_def STATE_KInt)
  have h: "decode_tuned_model raw = Inr tm \<longrightarrow>
        (\<exists>st. coerce_state (dict_get raw ''state'') = Inr st
              \<and> getattr tm ''state'' = Inr (VTunedModelState st))"
    using decode_tuned_model_state by blast
  have k: "decode_tuned_model raw = Inr tm \<and> dict_get raw ''state'' = VNone \<longrightarrow>
        getattr tm ''state'' = Inr (VTunedModelState TunedModelState_STATE_UNSPECIFIED)"
    using decode_tuned_model_state_absent by blast
  from a b b' c e f g h k show ?thesis by blast
qed

theorem enum_coercion_unknown_raises_witness:
  "lower ''Deleted'' \<notin> {''active'', ''creating'', ''failed'', ''state_unspecified'', ''unspecified''}
   \<and> to_tuned_model_state (OStr ''Deleted'') = Inl (KeyError (VStr ''deleted''))
   \<and> decode_tuned_model [(''state'', VStr ''Deleted'')] = Inl (KeyError (VStr ''deleted''))
   \<and> (4::int) \<notin> {0, 1, 2, 3}
   \<and> to_tuned_model_state (OInt 4) = Inl (KeyError (VInt 4))
   \<and> to_state (OStr ''Deleted'') = Inl (KeyError (VStr ''deleted''))
   \<and> to_state (OInt 4) = Inl (KeyError (VInt 4))
   \<and> (\<exists>tm. decode_tuned_model [(''name'', VStr ''tunedModels/t'')] = Inr tm
          \<and> dict_get [(''name'', VStr ''tunedModels/t'')] ''state'' = VNone
          \<and> getattr tm ''state'' = Inr (VTunedModelState TunedModelState_STATE_UNSPECIFIED))"
proof -
  let ?tm = "VObj ''TunedModel''
       [(''name'', VStr ''tunedModels/t''), (''source_model'', VNone),
        (''base_model'', VNone), (''display_name'', VStr []),
        (''description'', VStr []), (''temperature'', VNone),
        (''top_p'', VNone), (''top_k'', VNone),
        (''state'', VTunedModelState TunedModelState_STATE_UNSPECIFIED),
        (''create_time'', VNone), (''update_time'', VNone),
        (''tuning_task'', VNone)]"
  have l: "lower ''Deleted'' = ''deleted''"
    by (simp add: lower_def lower_char_def is_upper_def)
  have d: "decode_tuned_model [(''name'', VStr ''tunedModels/t'')] = Inr ?tm"
    by code_simp
  have n: "dict_get [(''name'', VStr ''tunedModels/t'')] ''state'' = VNone"
    by (simp add: dict_get_def)
  have "lower ''Deleted'' \<notin> {''active'', ''creating'', ''failed'', ''state_unspecified'', ''unspecified''}
   \<and> to_tuned_model_state (OStr ''Deleted'') = Inl (KeyError (VStr ''deleted''))
   \<and> decode_tuned_model [(''state'', VStr ''Deleted'')] = Inl (KeyError (VStr ''deleted''))
   \<and> (4::int) \<notin> {0, 1, 2, 3}
   \<and> to_tuned_model_state (OInt 4) = Inl (KeyError (VInt 4))
   \<and> to_state (OStr ''Deleted'') = Inl (KeyError (VStr ''deleted''))
   \<and> to_state (OInt 4) = Inl (KeyError (VInt 4))
   \<and> getattr ?tm ''state'' = Inr (VTunedModelState TunedModelState_STATE_UNSPECIFIED)"
    using enum_coercion_unknown_raises
        [where s = "''Deleted''" and i = 4 and rest = "[]"
           and raw = "[(''name'', VStr ''tunedModels/t'')]" and tm = ?tm] l d n
    by simp
  with d n show ?thesis by blast
qed

text \<open>
  Claim C2 as it is written fails: an unknown string does not coerce to the UNSPECIFIED
  member of \<open>TunedModelState\<close>, and the absent input does not coerce to the UNSPECIFIED
  member of \<open>Chunk.State\<close>; both lookups raise.
\<close>

theorem enum_coercion_default_counterexample:
  "to_tuned_model_state (OStr ''bogus'') \<noteq> Inr TunedModelState_STATE_UNSPECIFIED
   \<and> to_tuned_model_state (OStr ''bogus'') = Inl (KeyError (VStr ''bogus''))
   \<and> to_state ONone \<noteq> Inr State_STATE_UNSPECIFIED
   \<and> to_state ONone = Inl (KeyError VNone)"
  by (simp add: to_tuned_model_state_def to_state_def dict_getitem_def TUNED_MODEL_STATES_KStr
      STATE_KNone lower_def lower_char_def is_upper_def)

section \<open>Properties of the tuning-data encoder\<close>

subsection \<open>The text of a list of keys\<close>

lemma sublist_join:
  "x \<in> set xs \<Longrightarrow> sublist x (join sep xs)"
proof (induction sep xs rule: join.induct)
  case (1 sep)
  then show ?case by simp
next
  case (2 sep y)
  then show ?case by simp
next
  case (3 sep y z zs)
  show ?case
  proof (cases "x = y")
    case True
    then show ?thesis by (simp add: sublist_append_rightI)
  next
    case False
    with 3 have "sublist x (join sep (z # zs))" by simp
    then obtain ps ss where "join sep (z # zs) = ps @ x @ ss"
      by (auto simp: sublist_def)
    then have "join sep (y # z # zs) = (y @ sep @ ps) @ x @ ss" by simp
    then show ?thesis unfolding sublist_def by blast
  qed
qed

lemma repr_char_plain:
  "printable c \<Longrightarrow> c \<noteq> CHR 0x27 \<Longrightarrow> c \<noteq> CHR 0x5C \<Longrightarrow> repr_char (CHR 0x27) c = [c]"
  by (auto simp: repr_char_def printable_def)

lemma repr_str_plain:
  assumes "\<forall>c \<in> set k. printable c \<and> c \<noteq> CHR 0x27 \<and> c \<noteq> CHR 0x5C"
  shows "repr_str k = [CHR 0x27] @ k @ [CHR 0x27]"
proof -
  from assms have "concat (map (repr_char (CHR 0x27)) k) = k"
    by (induction k) (simp_all add: repr_char_plain)
  moreover from assms have "CHR 0x27 \<notin> set k" by blast
  ultimately show ?thesis by (simp add: repr_str_def Let_def)
qed

lemma repr_list_lists:
  assumes "k \<in> set keys"
  shows "sublist (repr_str k) (join '', '' (map repr_str (sort keys)))"
proof -
  from assms have "repr_str k \<in> set (map repr_str (sort keys))" by simp
  then show ?thesis by (rule sublist_join)
qed

lemma convert_dict_input_key_missing:
  "map_of data input_key = None \<Longrightarrow>
   convert_dict data input_key output_key
     = Inl (KeyError (VStr (''input_key is '' @ [CHR 0x22] @ input_key @ [CHR 0x22]
                            @ '', but data has keys: [''
                            @ join '', '' (map repr_str (sort (map fst data))) @ '']'')))"
  by (simp add: convert_dict_def repr_list_def)

lemma convert_dict_output_key_missing:
  "map_of data input_key = Some inputs \<Longrightarrow> map_of data output_key = None \<Longrightarrow>
   convert_dict data input_key output_key
     = Inl (KeyError (VStr (''output_key is '' @ [CHR 0x22] @ output_key @ [CHR 0x22]
                            @ '', but data has keys: [''
                            @ join '', '' (map repr_str (sort (map fst data))) @ '']'')))"
  by (simp add: convert_dict_def repr_list_def)

lemma convert_dict_zip:
  "map_of data input_key = Some inputs \<Longrightarrow> map_of data output_key = Some outputs \<Longrightarrow>
   convert_dict data input_key output_key = Inr (zip inputs outputs)"
proof -
  have z: "map (\<lambda>(i, out). (i, out)) (zip inputs outputs) = zip inputs outputs"
    by (induction inputs outputs rule: list_induct2') simp_all
  assume "map_of data input_key = Some inputs" "map_of data output_key = Some outputs"
  then show ?thesis by (simp add: convert_dict_def z)
qed

subsection \<open>Encoding a mapping\<close>

text \<open>
  Claim C8. When the mapping has both keys, the dataset is the two columns zipped: example
  \<open>i\<close> pairs input \<open>i\<close> with output \<open>i\<close>, and there are as many examples as the shorter column
  has elements. When a key is missing, the call raises \<open>KeyError\<close>, and its message names
  the missing key and then lists the keys of the mapping: the listing is the sorted keys,
  each as \<^verbatim>\<open>repr\<close> writes it, separated by a comma and a space, so every key of the mapping
  occurs in it, and a key of printable characters without quote or backslash occurs as
  itself between single quotes.
\<close>

theorem encode_tuning_data_mapping:
  "(map_of data input_key = Some inputs \<and> map_of data output_key = Some outputs \<longrightarrow>
      encode_tuning_data (Data_mapping data) input_key output_key = Inr (zip inputs outputs)
      \<and> length (zip inputs outputs) = min (length inputs) (length outputs)
      \<and> (\<forall>i < min (length inputs) (length outputs).
            zip inputs outputs ! i = (inputs ! i, outputs ! i)))
   \<and> (map_of data input_key = None \<or> map_of data output_key = None \<longrightarrow>
      (\<exists>listing.
          encode_tuning_data (Data_mapping data) input_key output_key
            = Inl (KeyError (VStr (
                (if map_of data input_key = None
                 then ''input_key is '' @ [CHR 0x22] @ input_key @ [CHR 0x22]
                 else ''output_key is '' @ [CHR 0x22] @ output_key @ [CHR 0x22])
                @ '', but data has keys: ['' @ listing @ '']'')))
        \<and> listing = join '', '' (map repr_str (sort (map fst data)))
        \<and> (\<forall>k \<in> fst ` set data.
              sublist (repr_str k) listing
              \<and> ((\<forall>c \<in> set k. printable c \<and> c \<noteq> CHR 0x27 \<and> c \<noteq> CHR 0x5C) \<longrightarrow>
                   sublist ([CHR 0x27] @ k @ [CHR 0x27]) listing))))"
proof (intro conjI impI)
  assume "map_of data input_key = Some inputs \<and> map_of data output_key = Some outputs"
  then show "encode_tuning_data (Data_mapping data) input_key output_key
               = Inr (zip inputs outputs)"
    by (simp add: convert_dict_zip)
next
  show "length (zip inputs outputs) = min (length inputs) (length outputs)"
    by simp
next
  show "\<forall>i < min (length inputs) (length outputs).
          zip inputs outputs ! i = (inputs ! i, outputs ! i)"
    by simp
next
  let ?listing = "join '', '' (map repr_str (sort (map fst data)))"
  assume missing: "map_of data input_key = None \<or> map_of data output_key = None"
  have raised: "encode_tuning_data (Data_mapping data) input_key output_key
      = Inl (KeyError (VStr (
          (if map_of data input_key = None
           then ''input_key is '' @ [CHR 0x22] @ input_key @ [CHR 0x22]
           else ''output_key is '' @ [CHR 0x22] @ output_key @ [CHR 0x22])
          @ '', but data has keys: ['' @ ?listing @ '']'')))"
  proof (cases "map_of data input_key")
    case None
    then show ?thesis by (simp add: convert_dict_input_key_missing)
  next
    case (Some inputs')
    with missing have "map_of data output_key = None" by simp
    with Some show ?thesis by (simp add: convert_dict_output_key_missing)
  qed
  have listed: "\<forall>k \<in> fst ` set data.
      sublist (repr_str k) ?listing
      \<and> ((\<forall>c \<in> set k. printable c \<and> c \<noteq> CHR 0x27 \<and> c \<noteq> CHR 0x5C) \<longrightarrow>
           sublist ([CHR 0x27] @ k @ [CHR 0x27]) ?listing)"
  proof (intro ballI conjI impI)
    fix k
    assume "k \<in> fst ` set data"
    then have k: "k \<in> set (map fst data)" by simp
    then show l: "sublist (repr_str k) ?listing" by (rule repr_list_lists)
    assume "\<forall>c \<in> set k. printable c \<and> c \<noteq> CHR 0x27 \<and> c \<noteq> CHR 0x5C"
    then have "repr_str k = [CHR 0x27] @ k @ [CHR 0x27]" by (rule repr_str_plain)
    with l show "sublist ([CHR 0x27] @ k @ [CHR 0x27]) ?listing" by simp
  qed
  from raised listed
  show "\<exists>listing.
          encode_tuning_data (Data_mapping data) input_key output_key
            = Inl (KeyError (VStr (
                (if map_of data input_key = None
                 then ''input_key is '' @ [CHR 0x22] @ input_key @ [CHR 0x22]
                 else ''output_key is '' @ [CHR 0x22] @ output_key @ [CHR 0x22])
                @ '', but data has keys: ['' @ listing @ '']'')))
        \<and> listing = join '', '' (map repr_str (sort (map fst data)))
        \<and> (\<forall>k \<in> fst ` set data.
              sublist (repr_str k) listing
              \<and> ((\<forall>c \<in> set k. printable c \<and> c \<noteq> CHR 0x27 \<and> c \<noteq> CHR 0x5C) \<longrightarrow>
                   sublist ([CHR 0x27] @ k @ [CHR 0x27]) listing))"
    by blast
qed

text \<open>
  The example of the specification, and the same columns under the key \<^verbatim>\<open>result\<close> in
  place of \<^verbatim>\<open>output\<close>: the message is
  \<^verbatim>\<open>output_key is "output", but data has keys: ['result', 'text_input']\<close>.
\<close>

theorem encode_tuning_data_mapping_witness:
  "encode_tuning_data (Data_mapping [(''text_input'', [''a'', ''b'']), (''output'', [''x'', ''y''])])
      ''text_input'' ''output'' = Inr [(''a'', ''x''), (''b'', ''y'')]
   \<and> encode_tuning_data (Data_mapping [(''text_input'', [''a'', ''b'']), (''result'', [''x'', ''y''])])
      ''text_input'' ''output''
     = Inl (KeyError (VStr (''output_key is '' @ [CHR 0x22] @ ''output'' @ [CHR 0x22]
                            @ '', but data has keys: ['' @ [CHR 0x27] @ ''result'' @ [CHR 0x27]
                            @ '', '' @ [CHR 0x27] @ ''text_input'' @ [CHR 0x27] @ '']'')))
   \<and> sublist ([CHR 0x27] @ ''result'' @ [CHR 0x27])
        ([CHR 0x27] @ ''result'' @ [CHR 0x27] @ '', '' @ [CHR 0x27] @ ''text_input'' @ [CHR 0x27])"
proof -
  have listing: "join '', '' (map repr_str (sort (map fst
        [(''text_input'', [''a'', ''b'']), (''result'', [''x'', ''y''])])))
      = [CHR 0x27] @ ''result'' @ [CHR 0x27] @ '', '' @ [CHR 0x27] @ ''text_input'' @ [CHR 0x27]"
    by code_simp
  have plain: "\<forall>c \<in> set ''result''. printable c \<and> c \<noteq> CHR 0x27 \<and> c \<noteq> CHR 0x5C"
    by code_simp
  show ?thesis
    using encode_tuning_data_mapping
        [of "[(''text_input'', [''a'', ''b'']), (''output'', [''x'', ''y''])]" "''text_input''"
            "[''a'', ''b'']" "''output''" "[''x'', ''y'']"]
      encode_tuning_data_mapping
        [of "[(''text_input'', [''a'', ''b'']), (''result'', [''x'', ''y''])]" "''text_input''"
            "[''a'', ''b'']" "''output''" "[]"]
      listing plain
    by simp
qed

lemma encode_tuning_data_examples:
  "encode_tuning_data (Data_mapping [(''text_input'', [''a'', ''b'', ''c'']), (''output'', [''x''])])
      ''text_input'' ''output'' = Inr [(''a'', ''x'')]"
  "encode_tuning_data (Data_mapping [(''b'', [''x'']), (''a'', [''y''])]) ''text_input'' ''output''
     = Inl (KeyError (VStr (''input_key is '' @ [CHR 0x22] @ ''text_input'' @ [CHR 0x22]
                            @ '', but data has keys: ['' @ [CHR 0x27] @ ''a'' @ [CHR 0x27]
                            @ '', '' @ [CHR 0x27] @ ''b'' @ [CHR 0x27] @ '']'')))"
  "encode_tuning_data (Data_mapping []) ''text_input'' ''output''
     = Inl (KeyError (VStr (''input_key is '' @ [CHR 0x22] @ ''text_input'' @ [CHR 0x22]
                            @ '', but data has keys: []'')))"
  "repr_list [''result'', ''text_input''] = [CHR ''['', CHR 0x27] @ ''result'' @ [CHR 0x27] @ '', ''
      @ [CHR 0x27] @ ''text_input'' @ [CHR 0x27, CHR '']'']"
  "encode_tuning_data (Data_iterable [Example_sequence [''a'', ''x''], Example_message (''b'', ''y'')])
      ''text_input'' ''output'' = Inr [(''a'', ''x''), (''b'', ''y'')]"
  "encode_tuning_data (Data_iterable [Example_sequence [''a'', ''x'', ''y'']]) ''text_input'' ''output''
     = Inl (ValueError ''too many values to unpack (expected 2)'')"
  "encode_tuning_data (Data_iterable [Example_sequence [''a'']]) ''text_input'' ''output''
     = Inl (ValueError ''not enough values to unpack (expected 2, got 1)'')"
  by code_simp+

end
